theory Spec2Isabelle
  imports Main
begin

section \<open>Data model (prisma/schema.prisma)\<close>

text \<open>
  Timestamps (\<open>DateTime\<close>, JavaScript \<open>Date\<close>) are milliseconds since the epoch.
  Strings are lists of code units; the character functions below cover the code units
  0 to 255 (Latin-1), which is what \<open>char\<close> holds.
\<close>

type_synonym datetime = int

datatype PublicationStatus = DRAFT | PUBLISHED

text \<open>
  \<open>model Reflection\<close>. The primary key \<open>id\<close> is the field \<open>rid\<close>
  (\<open>id\<close> is the identity function of HOL). The many-to-many relation
  \<open>tags\<close> (rows of \<open>ReflectionTag\<close>) is the list of the tag ids joined to the reflection.
\<close>

record Reflection =
  rid :: string
  title :: string
  content :: string
  publishDate :: "datetime option"
  slug :: string
  status :: PublicationStatus
  createdAt :: datetime
  updatedAt :: datetime
  authorId :: string
  featuredImageId :: "string option"
  tags :: "string list"

text \<open>
  \<open>model Album\<close> and \<open>model Image\<close> (keys \<open>aid\<close> and \<open>iid\<close>; \<open>size\<close> is
  \<open>fsize\<close>). Their columns \<open>createdAt\<close> and \<open>updatedAt\<close>, which the database fills
  and no handler reads, are left out.
\<close>

record Album =
  aid :: string
  name :: string
  description :: "string option"
  date :: datetime
  uploadedById :: string

record Image =
  iid :: string
  url :: string
  alt :: "string option"
  caption :: "string option"
  width :: "int option"
  height :: "int option"
  fsize :: "int option"
  albumId :: string
  userId :: "string option"

text \<open>
  The database: the rows of the tables the handlers touch. \<open>tagIds\<close> are the primary
  keys of the table \<open>tags\<close>.
\<close>

record database =
  reflectionRows :: "Reflection list"
  tagIds :: "string list"
  albumRows :: "Album list"
  imageRows :: "Image list"

section \<open>Requests and responses\<close>

text \<open>
  A JSON value, as \<open>c.req.json()\<close> and \<open>JSON.parse\<close> return it. Numbers are the
  integers; an object lists its properties, each key once.
\<close>

datatype json =
  JNull
  | JBool bool
  | JNum int
  | JStr string
  | JArr "json list"
  | JObj "(string \<times> json) list"

text \<open>The body handed to \<open>c.json\<close>, and the response: status code and body.\<close>

datatype payload =
  Error string
  | ValidationError
  | InternalServerError
  | OneReflection Reflection
  | ManyReflections "Reflection list"
  | SuccessTrue
  | AlbumWithImages Album "Image list"

type_synonym response = "nat \<times> payload"

section \<open>hooks/useSlug.ts\<close>

definition toLowerCase_char :: "char \<Rightarrow> char" where
  "toLowerCase_char c =
     (let n = (of_char c :: nat)
      in if (65 \<le> n \<and> n \<le> 90) \<or> (192 \<le> n \<and> n \<le> 222 \<and> n \<noteq> 215)
         then char_of (n + 32) else c)"

definition toLowerCase :: "string \<Rightarrow> string" where
  "toLowerCase s = map toLowerCase_char s"

text \<open>The class \<open>\s\<close>: tab, line feed, vertical tab, form feed, carriage return, space, no-break space.\<close>

definition isSpace :: "char \<Rightarrow> bool" where
  "isSpace c = ((of_char c :: nat) \<in> {9, 10, 11, 12, 13, 32, 160})"

text \<open>The class \<open>\w\<close>: \<open>[A-Za-z0-9_]\<close>.\<close>

definition isWord :: "char \<Rightarrow> bool" where
  "isWord c =
     (let n = (of_char c :: nat)
      in (48 \<le> n \<and> n \<le> 57) \<or> (65 \<le> n \<and> n \<le> 90) \<or> n = 95 \<or> (97 \<le> n \<and> n \<le> 122))"

text \<open>\<open>.replace(/\s+/g, "-")\<close>: every maximal run of white space becomes one hyphen.\<close>

function replaceSpaces :: "string \<Rightarrow> string" where
  "replaceSpaces [] = []"
| "replaceSpaces (c # cs) =
     (if isSpace c then CHR ''-'' # replaceSpaces (dropWhile isSpace cs)
      else c # replaceSpaces cs)"
  by pat_completeness auto
termination
  by (relation "measure length") (auto simp: length_dropWhile_le less_Suc_eq_le)

text \<open>\<open>.replace(/[^\w\-]+/g, "")\<close>: every character that is neither a word character nor a hyphen goes.\<close>

definition removeNonWord :: "string \<Rightarrow> string" where
  "removeNonWord s = filter (\<lambda>c. isWord c \<or> c = CHR ''-'') s"

text \<open>\<open>.replace(/\-\-+/g, "-")\<close>: every maximal run of two or more hyphens becomes one hyphen.\<close>

function collapseHyphens :: "string \<Rightarrow> string" where
  "collapseHyphens [] = []"
| "collapseHyphens (c # cs) =
     (if c = CHR ''-'' then CHR ''-'' # collapseHyphens (dropWhile (\<lambda>d. d = CHR ''-'') cs)
      else c # collapseHyphens cs)"
  by pat_completeness auto
termination
  by (relation "measure length") (auto simp: length_dropWhile_le less_Suc_eq_le)

text \<open>\<open>.replace(/^-+/, "")\<close> and \<open>.replace(/-+$/, "")\<close>.\<close>

definition trimStart :: "string \<Rightarrow> string" where
  "trimStart s = dropWhile (\<lambda>d. d = CHR ''-'') s"

definition trimEnd :: "string \<Rightarrow> string" where
  "trimEnd s = rev (dropWhile (\<lambda>d. d = CHR ''-'') (rev s))"

definition createSlug :: "string \<Rightarrow> string" where
  "createSlug text =
     trimEnd (trimStart (collapseHyphens (removeNonWord (replaceSpaces (toLowerCase text)))))"

section \<open>Validation (the zod schemas of api/reflections.ts)\<close>

text \<open>
  A property of a JSON object; a key that is absent reads as \<open>undefined\<close>, here \<open>None\<close>.
\<close>

definition getProp :: "(string \<times> json) list \<Rightarrow> string \<Rightarrow> json option" where
  "getProp kvs k = map_of kvs k"

text \<open>
  Each schema maps the value read (\<open>None\<close> when undefined) to \<open>Some\<close> of the parsed
  value, or to \<open>None\<close> when zod raises a \<open>ZodError\<close>.
\<close>

fun zString :: "json option \<Rightarrow> string option" where
  "zString (Some (JStr s)) = Some s"
| "zString _ = None"

fun zStringMin1 :: "json option \<Rightarrow> string option" where
  "zStringMin1 (Some (JStr s)) = (if 1 \<le> length s then Some s else None)"
| "zStringMin1 _ = None"

fun zStatus :: "json option \<Rightarrow> PublicationStatus option" where
  "zStatus (Some (JStr s)) =
     (if s = ''DRAFT'' then Some DRAFT else if s = ''PUBLISHED'' then Some PUBLISHED else None)"
| "zStatus _ = None"

fun zStrings :: "json list \<Rightarrow> string list option" where
  "zStrings [] = Some []"
| "zStrings (JStr s # js) = (case zStrings js of None \<Rightarrow> None | Some ss \<Rightarrow> Some (s # ss))"
| "zStrings (_ # js) = None"

fun zStringArray :: "json option \<Rightarrow> string list option" where
  "zStringArray (Some (JArr js)) = zStrings js"
| "zStringArray _ = None"

text \<open>\<open>.optional()\<close>: undefined is accepted and stays undefined.\<close>

fun zOptional :: "(json option \<Rightarrow> 'a option) \<Rightarrow> json option \<Rightarrow> 'a option option" where
  "zOptional p None = Some None"
| "zOptional p (Some j) = (case p (Some j) of None \<Rightarrow> None | Some v \<Rightarrow> Some (Some v))"

text \<open>\<open>.default(d)\<close>: undefined is replaced by \<open>d\<close>.\<close>

fun zDefault :: "'a \<Rightarrow> (json option \<Rightarrow> 'a option) \<Rightarrow> json option \<Rightarrow> 'a option" where
  "zDefault d p None = Some d"
| "zDefault d p (Some j) = p (Some j)"

record CreateReflectionInput =
  v_title :: string
  v_content :: string
  v_slug :: "string option"
  v_status :: PublicationStatus
  v_featuredImageId :: "string option"
  v_tags :: "string list option"
  v_publishDate :: "string option"

text \<open>
  \<open>createReflectionSchema.parse\<close>. A \<open>z.object\<close> accepts objects only and strips the
  keys it does not name.
\<close>

fun createReflectionSchema :: "json \<Rightarrow> CreateReflectionInput option" where
  "createReflectionSchema (JObj ob) =
     (case zStringMin1 (getProp ob ''title'') of None \<Rightarrow> None | Some t \<Rightarrow>
      case zStringMin1 (getProp ob ''content'') of None \<Rightarrow> None | Some c \<Rightarrow>
      case zOptional zStringMin1 (getProp ob ''slug'') of None \<Rightarrow> None | Some sl \<Rightarrow>
      case zDefault DRAFT zStatus (getProp ob ''status'') of None \<Rightarrow> None | Some st \<Rightarrow>
      case zOptional zString (getProp ob ''featuredImageId'') of None \<Rightarrow> None | Some fi \<Rightarrow>
      case zOptional zStringArray (getProp ob ''tags'') of None \<Rightarrow> None | Some tg \<Rightarrow>
      case zOptional zString (getProp ob ''publishDate'') of None \<Rightarrow> None | Some pd \<Rightarrow>
        Some \<lparr>v_title = t, v_content = c, v_slug = sl, v_status = st,
              v_featuredImageId = fi, v_tags = tg, v_publishDate = pd\<rparr>)"
| "createReflectionSchema _ = None"

record UpdateReflectionInput =
  u_title :: "string option"
  u_content :: "string option"
  u_slug :: "string option"
  u_status :: "PublicationStatus option"
  u_featuredImageId :: "string option"
  u_tags :: "string list option"
  u_publishDate :: "string option"

text \<open>
  \<open>createReflectionSchema.partial().parse\<close>: every field is wrapped in \<open>.optional()\<close>,
  so an absent \<open>status\<close> stays undefined (the default of the inner schema is not reached).
\<close>

fun createReflectionSchema_partial :: "json \<Rightarrow> UpdateReflectionInput option" where
  "createReflectionSchema_partial (JObj ob) =
     (case zOptional zStringMin1 (getProp ob ''title'') of None \<Rightarrow> None | Some t \<Rightarrow>
      case zOptional zStringMin1 (getProp ob ''content'') of None \<Rightarrow> None | Some c \<Rightarrow>
      case zOptional zStringMin1 (getProp ob ''slug'') of None \<Rightarrow> None | Some sl \<Rightarrow>
      case zOptional (zDefault DRAFT zStatus) (getProp ob ''status'') of None \<Rightarrow> None | Some st \<Rightarrow>
      case zOptional zString (getProp ob ''featuredImageId'') of None \<Rightarrow> None | Some fi \<Rightarrow>
      case zOptional zStringArray (getProp ob ''tags'') of None \<Rightarrow> None | Some tg \<Rightarrow>
      case zOptional zString (getProp ob ''publishDate'') of None \<Rightarrow> None | Some pd \<Rightarrow>
        Some \<lparr>u_title = t, u_content = c, u_slug = sl, u_status = st,
              u_featuredImageId = fi, u_tags = tg, u_publishDate = pd\<rparr>)"
| "createReflectionSchema_partial _ = None"

section \<open>Persistence (the Prisma calls of api/reflections.ts)\<close>

text \<open>What makes a Prisma call throw.\<close>

datatype prisma_error = UniqueConstraint | ForeignKey | RecordNotFound | InvalidValue

text \<open>\<open>prisma.reflection.findUnique({ where: { id } })\<close>.\<close>

definition findUnique :: "database \<Rightarrow> string \<Rightarrow> Reflection option" where
  "findUnique db i = find (\<lambda>r. rid r = i) (reflectionRows db)"

text \<open>
  A \<open>DateTime\<close> field given a string: the client accepts ISO-8601 text only. The reading
  of such text as a timestamp is the parameter \<open>parseIso\<close> (\<open>None\<close>: not ISO-8601).
\<close>

fun toDateTime :: "(string \<Rightarrow> datetime option) \<Rightarrow> string option \<Rightarrow> prisma_error + datetime option" where
  "toDateTime parseIso None = Inr None"
| "toDateTime parseIso (Some s) = (case parseIso s of None \<Rightarrow> Inl InvalidValue | Some t \<Rightarrow> Inr (Some t))"

text \<open>The foreign key \<open>featuredImageId\<close> references \<open>Image.id\<close>.\<close>

definition imageExists :: "database \<Rightarrow> string option \<Rightarrow> bool" where
  "imageExists db fi = (case fi of None \<Rightarrow> True | Some i \<Rightarrow> i \<in> iid ` set (imageRows db))"

text \<open>
  The nested \<open>tags: { create: [{ tag: { connect: { id } } }, ...] }\<close>: every tag must
  exist, and \<open>ReflectionTag\<close> has the key \<open>(reflectionId, tagId)\<close>.
\<close>

definition connectTags :: "database \<Rightarrow> string list \<Rightarrow> prisma_error + string list" where
  "connectTags db ts =
     (if \<not> set ts \<subseteq> set (tagIds db) then Inl RecordNotFound
      else if \<not> distinct ts then Inl UniqueConstraint
      else Inr ts)"

text \<open>
  \<open>prisma.reflection.create\<close> with the data of the create handler: \<open>i\<close> is the new id,
  \<open>sl\<close> the slug, \<open>a\<close> the author. The row is added only when every constraint holds.
\<close>

definition reflection_create ::
  "(string \<Rightarrow> datetime option) \<Rightarrow> datetime \<Rightarrow> database \<Rightarrow> string \<Rightarrow> string \<Rightarrow> string
     \<Rightarrow> CreateReflectionInput \<Rightarrow> prisma_error + (Reflection \<times> database)" where
  "reflection_create parseIso now db i sl a v =
     (case toDateTime parseIso (v_publishDate v) of Inl e \<Rightarrow> Inl e | Inr pd \<Rightarrow>
      if i \<in> rid ` set (reflectionRows db) then Inl UniqueConstraint
      else if sl \<in> slug ` set (reflectionRows db) then Inl UniqueConstraint
      else if \<not> imageExists db (v_featuredImageId v) then Inl ForeignKey
      else case connectTags db (case v_tags v of None \<Rightarrow> [] | Some ts \<Rightarrow> ts) of
        Inl e \<Rightarrow> Inl e
      | Inr ts \<Rightarrow>
          (let r = \<lparr>rid = i, title = v_title v, content = v_content v, publishDate = pd,
                    slug = sl, status = v_status v, createdAt = now, updatedAt = now,
                    authorId = a, featuredImageId = v_featuredImageId v, tags = ts\<rparr>
           in Inr (r, db\<lparr>reflectionRows := reflectionRows db @ [r]\<rparr>)))"

text \<open>An undefined field of \<open>data\<close> leaves the column as it is.\<close>

definition orKeep :: "'a option \<Rightarrow> 'a \<Rightarrow> 'a" where
  "orKeep new old = (case new of None \<Rightarrow> old | Some v \<Rightarrow> v)"

definition applyUpdate ::
  "datetime \<Rightarrow> UpdateReflectionInput \<Rightarrow> datetime option \<Rightarrow> Reflection \<Rightarrow> Reflection" where
  "applyUpdate now v pd r =
     r\<lparr>title := orKeep (u_title v) (title r),
       content := orKeep (u_content v) (content r),
       slug := orKeep (u_slug v) (slug r),
       status := orKeep (u_status v) (status r),
       featuredImageId := (case u_featuredImageId v of None \<Rightarrow> featuredImageId r | Some f \<Rightarrow> Some f),
       tags := orKeep (u_tags v) (tags r),
       publishDate := (case pd of None \<Rightarrow> publishDate r | Some t \<Rightarrow> Some t),
       updatedAt := now\<rparr>"

text \<open>Rewrites the row with key \<open>i\<close>.\<close>

definition updateRow :: "string \<Rightarrow> (Reflection \<Rightarrow> Reflection) \<Rightarrow> database \<Rightarrow> database" where
  "updateRow i f db = db\<lparr>reflectionRows := map (\<lambda>r. if rid r = i then f r else r) (reflectionRows db)\<rparr>"

text \<open>
  \<open>prisma.reflection.update({ where: { id }, data: { ...validated, tags: ... } })\<close> of the
  update handler. \<open>tags\<close>, when given, replaces the joined tags (\<open>deleteMany\<close>, then \<open>create\<close>).
\<close>

definition reflection_update ::
  "(string \<Rightarrow> datetime option) \<Rightarrow> datetime \<Rightarrow> database \<Rightarrow> string
     \<Rightarrow> UpdateReflectionInput \<Rightarrow> prisma_error + (Reflection \<times> database)" where
  "reflection_update parseIso now db i v =
     (case findUnique db i of None \<Rightarrow> Inl RecordNotFound | Some r \<Rightarrow>
      case toDateTime parseIso (u_publishDate v) of Inl e \<Rightarrow> Inl e | Inr pd \<Rightarrow>
      if (case u_slug v of None \<Rightarrow> False
          | Some s \<Rightarrow> s \<in> slug ` {x \<in> set (reflectionRows db). rid x \<noteq> i}) then Inl UniqueConstraint
      else if \<not> imageExists db (u_featuredImageId v) then Inl ForeignKey
      else case connectTags db (case u_tags v of None \<Rightarrow> [] | Some ts \<Rightarrow> ts) of
        Inl e \<Rightarrow> Inl e
      | Inr ts \<Rightarrow> Inr (applyUpdate now v pd r, updateRow i (applyUpdate now v pd) db))"

text \<open>
  \<open>prisma.reflection.update({ where: { id }, data: { status: "PUBLISHED", publishDate: new Date() } })\<close>
  of the publish handler.
\<close>

definition stamp :: "datetime \<Rightarrow> Reflection \<Rightarrow> Reflection" where
  "stamp now r = r\<lparr>status := PUBLISHED, publishDate := Some now, updatedAt := now\<rparr>"

definition reflection_publish ::
  "datetime \<Rightarrow> database \<Rightarrow> string \<Rightarrow> prisma_error + (Reflection \<times> database)" where
  "reflection_publish now db i =
     (case findUnique db i of None \<Rightarrow> Inl RecordNotFound
      | Some r \<Rightarrow> Inr (stamp now r, updateRow i (stamp now) db))"

text \<open>\<open>prisma.reflection.delete({ where: { id } })\<close>; the joined tags go with the row.\<close>

definition reflection_delete :: "database \<Rightarrow> string \<Rightarrow> prisma_error + database" where
  "reflection_delete db i =
     (case findUnique db i of None \<Rightarrow> Inl RecordNotFound
      | Some r \<Rightarrow> Inr (db\<lparr>reflectionRows := filter (\<lambda>x. rid x \<noteq> i) (reflectionRows db)\<rparr>))"

section \<open>The handlers of api/reflections.ts\<close>

text \<open>
  \<open>c.get("user")\<close> is the session's user or \<open>null\<close>; the handlers read its \<open>id\<close>
  only, so the caller is \<open>Some id\<close> or \<open>None\<close>. A request body is \<open>Some\<close> of the JSON
  value it holds, or \<open>None\<close> when \<open>c.req.json()\<close> rejects it. \<open>crypto.randomUUID()\<close>
  and \<open>new Date()\<close> are the parameters \<open>newId\<close> and \<open>now\<close>.
\<close>

definition requireAuth ::
  "string option \<Rightarrow> 's \<Rightarrow> (string \<Rightarrow> response \<times> 's) \<Rightarrow> response \<times> 's" where
  "requireAuth user db next =
     (case user of None \<Rightarrow> ((401, Error ''Unauthorized''), db) | Some u \<Rightarrow> next u)"

text \<open>\<open>validated.slug || createSlug(validated.title)\<close>.\<close>

definition slugFor :: "CreateReflectionInput \<Rightarrow> string" where
  "slugFor v =
     (case v_slug v of None \<Rightarrow> createSlug (v_title v)
      | Some s \<Rightarrow> if s \<noteq> [] then s else createSlug (v_title v))"

text \<open>\<open>reflections.post("/create", requireAuth, ...)\<close>.\<close>

definition reflections_create ::
  "(string \<Rightarrow> datetime option) \<Rightarrow> datetime \<Rightarrow> string \<Rightarrow> string option \<Rightarrow> json option
     \<Rightarrow> database \<Rightarrow> response \<times> database" where
  "reflections_create parseIso now newId user body db =
     requireAuth user db (\<lambda>u.
       case body of None \<Rightarrow> ((400, Error ''Failed to create reflection''), db)
       | Some j \<Rightarrow>
       (case createReflectionSchema j of
          None \<Rightarrow> ((400, Error ''Failed to create reflection''), db)
        | Some v \<Rightarrow>
          (case reflection_create parseIso now db newId (slugFor v) u v of
             Inl e \<Rightarrow> ((400, Error ''Failed to create reflection''), db)
           | Inr (r, db') \<Rightarrow> ((201, OneReflection r), db'))))"

text \<open>
  The \<open>where\<close> object of the list handler. A query parameter is \<open>None\<close> when absent;
  \<open>x && {...}\<close> spreads nothing when \<open>x\<close> is undefined or the empty string, and a later
  spread overwrites the keys of an earlier one.
\<close>

record ReflectionWhereInput =
  w_status :: "string option"
  w_authorId :: "string option"

definition truthy :: "string option \<Rightarrow> bool" where
  "truthy q = (case q of None \<Rightarrow> False | Some s \<Rightarrow> s \<noteq> [])"

definition listWhere ::
  "string option \<Rightarrow> string option \<Rightarrow> string option \<Rightarrow> ReflectionWhereInput" where
  "listWhere user status_q authorId_q =
     (let w0 = \<lparr>w_status = None, w_authorId = None\<rparr>;
          w1 = (if truthy status_q then w0\<lparr>w_status := status_q\<rparr> else w0);
          w2 = (if truthy authorId_q then w1\<lparr>w_authorId := authorId_q\<rparr> else w1);
          w3 = (if user = None then w2\<lparr>w_status := Some ''PUBLISHED''\<rparr> else w2);
          w4 = (if status_q = Some ''DRAFT'' \<and> (user = None \<or> user \<noteq> authorId_q)
                then w3\<lparr>w_authorId := Some ''none''\<rparr> else w3)
      in w4)"

text \<open>
  \<open>prisma.reflection.findMany({ where })\<close>: a \<open>status\<close> that is no member of the enum
  makes the client throw.
\<close>

definition statusOfString :: "string \<Rightarrow> PublicationStatus option" where
  "statusOfString s =
     (if s = ''DRAFT'' then Some DRAFT else if s = ''PUBLISHED'' then Some PUBLISHED else None)"

definition authorMatches :: "string option \<Rightarrow> Reflection \<Rightarrow> bool" where
  "authorMatches a r = (case a of None \<Rightarrow> True | Some x \<Rightarrow> authorId r = x)"

definition findMany :: "database \<Rightarrow> ReflectionWhereInput \<Rightarrow> prisma_error + Reflection list" where
  "findMany db w =
     (case w_status w of
        None \<Rightarrow> Inr (filter (authorMatches (w_authorId w)) (reflectionRows db))
      | Some s \<Rightarrow>
        (case statusOfString s of
           None \<Rightarrow> Inl InvalidValue
         | Some st \<Rightarrow>
             Inr (filter (\<lambda>r. status r = st \<and> authorMatches (w_authorId w) r) (reflectionRows db))))"

text \<open>
  \<open>reflections.get("/get", ...)\<close>. The handler has no \<open>try\<close>: what \<open>findMany\<close> throws
  reaches the framework, which answers 500.
\<close>

definition reflections_get ::
  "string option \<Rightarrow> string option \<Rightarrow> string option \<Rightarrow> database \<Rightarrow> response" where
  "reflections_get user status_q authorId_q db =
     (case findMany db (listWhere user status_q authorId_q) of
        Inl e \<Rightarrow> (500, InternalServerError)
      | Inr rs \<Rightarrow> (200, ManyReflections rs))"

text \<open>\<open>reflections.get("/get/:id", ...)\<close>.\<close>

definition reflections_get_id :: "string option \<Rightarrow> string \<Rightarrow> database \<Rightarrow> response" where
  "reflections_get_id user i db =
     (case findUnique db i of
        None \<Rightarrow> (404, Error ''Reflection not found'')
      | Some reflection \<Rightarrow>
          if status reflection = DRAFT \<and> (user = None \<or> user \<noteq> Some (authorId reflection))
          then (404, Error ''Not found'')
          else (200, OneReflection reflection))"

text \<open>\<open>reflections.put("/update/:id", requireAuth, ...)\<close>. The body is read first.\<close>

definition reflections_update ::
  "(string \<Rightarrow> datetime option) \<Rightarrow> datetime \<Rightarrow> string option \<Rightarrow> string \<Rightarrow> json option
     \<Rightarrow> database \<Rightarrow> response \<times> database" where
  "reflections_update parseIso now user i body db =
     requireAuth user db (\<lambda>u.
       case body of None \<Rightarrow> ((400, Error ''Failed to update reflection''), db)
       | Some j \<Rightarrow>
       (case findUnique db i of
          None \<Rightarrow> ((404, Error ''Reflection not found''), db)
        | Some existing \<Rightarrow>
            if authorId existing \<noteq> u then ((403, Error ''Unauthorized''), db)
            else
              (case createReflectionSchema_partial j of
                 None \<Rightarrow> ((400, Error ''Failed to update reflection''), db)
               | Some v \<Rightarrow>
                 (case reflection_update parseIso now db i v of
                    Inl e \<Rightarrow> ((400, Error ''Failed to update reflection''), db)
                  | Inr (r, db') \<Rightarrow> ((200, OneReflection r), db')))))"

text \<open>\<open>reflections.delete("/delete/:id", requireAuth, ...)\<close>.\<close>

definition reflections_delete :: "string option \<Rightarrow> string \<Rightarrow> database \<Rightarrow> response \<times> database" where
  "reflections_delete user i db =
     requireAuth user db (\<lambda>u.
       case findUnique db i of
         None \<Rightarrow> ((404, Error ''Reflection not found''), db)
       | Some existing \<Rightarrow>
           if authorId existing \<noteq> u then ((403, Error ''Unauthorized''), db)
           else
             (case reflection_delete db i of
                Inl e \<Rightarrow> ((400, Error ''Failed to delete reflection''), db)
              | Inr db' \<Rightarrow> ((200, SuccessTrue), db')))"

text \<open>\<open>reflections.patch("/publish/:id", requireAuth, ...)\<close>.\<close>

definition reflections_publish ::
  "datetime \<Rightarrow> string option \<Rightarrow> string \<Rightarrow> database \<Rightarrow> response \<times> database" where
  "reflections_publish now user i db =
     requireAuth user db (\<lambda>u.
       case findUnique db i of
         None \<Rightarrow> ((404, Error ''Reflection not found''), db)
       | Some existing \<Rightarrow>
           if authorId existing \<noteq> u then ((403, Error ''Unauthorized''), db)
           else
             (case reflection_publish now db i of
                Inl e \<Rightarrow> ((400, Error ''Failed to publish reflection''), db)
              | Inr (r, db') \<Rightarrow> ((200, OneReflection r), db')))"

section \<open>Example data\<close>

text \<open>A draft of alice, the same reflection once published, and databases holding them.\<close>

definition alice_draft :: Reflection where
  "alice_draft =
     \<lparr>rid = ''r1'', title = ''Hello World'', content = ''x'', publishDate = None,
      slug = ''hello-world'', status = DRAFT, createdAt = 1000, updatedAt = 1000,
      authorId = ''alice'', featuredImageId = None, tags = []\<rparr>"


definition db_empty :: database where
  "db_empty = \<lparr>reflectionRows = [], tagIds = [], albumRows = [], imageRows = []\<rparr>"

definition db_draft :: database where
  "db_draft = \<lparr>reflectionRows = [alice_draft], tagIds = [], albumRows = [], imageRows = []\<rparr>"


text \<open>No string is read as a date.\<close>

definition noIso :: "string \<Rightarrow> datetime option" where
  "noIso s = None"

text \<open>A published reflection of bob, and a database with alice's draft and bob's reflection.\<close>

definition bob_published :: Reflection where
  "bob_published =
     \<lparr>rid = ''r2'', title = ''Second'', content = ''y'', publishDate = Some 1500,
      slug = ''second'', status = PUBLISHED, createdAt = 1200, updatedAt = 1500,
      authorId = ''bob'', featuredImageId = None, tags = []\<rparr>"

definition db_two :: database where
  "db_two = \<lparr>reflectionRows = [alice_draft, bob_published], tagIds = [], albumRows = [], imageRows = []\<rparr>"

text \<open>Request bodies: a reflection published at creation, and two with the same title.\<close>

definition hello_body :: json where
  "hello_body = JObj [(''title'', JStr ''Hello World''), (''content'', JStr ''x''),
                      (''status'', JStr ''PUBLISHED'')]"

definition draft_body :: "(string \<times> json) list" where
  "draft_body = [(''title'', JStr ''Hello World''), (''content'', JStr ''x'')]"

definition other_body :: "(string \<times> json) list" where
  "other_body = [(''title'', JStr ''Hello World''), (''content'', JStr ''something else'')]"



section \<open>Object storage (lib/supabase.ts)\<close>

text \<open>
  The world of the album handlers: the database, the paths of the objects in the bucket
  \<open>albums\<close>, and a log of the writes done, the latest first. The storage service and
  the generators are parameters: \<open>storageFails\<close> tells for which path the service
  reports an error, \<open>publicUrl\<close> is \<open>getPublicUrl\<close>, \<open>albumUuid\<close> and \<open>imageUuid\<close>
  are the results of \<open>crypto.randomUUID()\<close> for the album and for the image of each
  index, \<open>jsDate\<close> is \<open>new Date(text)\<close> (\<open>None\<close>: an invalid date).
\<close>

datatype event =
  StorageUploaded string string
  | StorageRemoved string
  | AlbumRowCreated string
  | ImageRowCreated string string
  | AlbumRowsDeleted string

record world =
  dbase :: database
  objects :: "string list"
  log :: "event list"

record env =
  storageFails :: "string \<Rightarrow> bool"
  publicUrl :: "string \<Rightarrow> string"
  albumUuid :: string
  imageUuid :: "nat \<Rightarrow> string"
  jsDate :: "string \<Rightarrow> datetime option"

datatype failure = StorageError | PrismaError prisma_error | TypeError

text \<open>
  \<open>storageHelpers.uploadFile\<close>: the upload is made with \<open>upsert: false\<close>, so a path that
  is taken is an error too; on success the public URL of the path is returned.
\<close>

definition uploadFile :: "env \<Rightarrow> world \<Rightarrow> string \<Rightarrow> failure + (string \<times> world)" where
  "uploadFile e w filePath =
     (if storageFails e filePath \<or> filePath \<in> set (objects w) then Inl StorageError
      else Inr (publicUrl e filePath,
                w\<lparr>objects := filePath # objects w,
                  log := StorageUploaded filePath (publicUrl e filePath) # log w\<rparr>))"

text \<open>\<open>storageHelpers.deleteFile\<close>: throws when the service reports an error.\<close>

definition deleteFile :: "env \<Rightarrow> world \<Rightarrow> string \<Rightarrow> failure + world" where
  "deleteFile e w filePath =
     (if storageFails e filePath then Inl StorageError
      else Inr (w\<lparr>objects := removeAll filePath (objects w),
                  log := StorageRemoved filePath # log w\<rparr>))"

section \<open>The album handlers of api/albums.ts\<close>

text \<open>\<open>s.split(sep).pop()\<close>: what follows the last separator, or all of \<open>s\<close>.\<close>

definition splitPop :: "char \<Rightarrow> string \<Rightarrow> string" where
  "splitPop sep s = rev (takeWhile (\<lambda>c. c \<noteq> sep) (rev s))"

text \<open>
  A file of the form data (\<open>file.name\<close>, \<open>file.size\<close>), and the form itself:
  \<open>albumData\<close> is \<open>None\<close> when the field is absent or empty, \<open>Some None\<close> when
  \<open>JSON.parse\<close> rejects it; \<open>imageFiles\<close> are the fields \<open>image_0\<close>, \<open>image_1\<close>, ...
  up to the first index that is absent, each taken to be a file, as the handler's cast
  \<open>as File\<close> takes it.
\<close>

record File =
  fname :: string
  fbytes :: int

record AlbumForm =
  albumData :: "json option option"
  imageFiles :: "File list"

record ImageMeta =
  m_id :: string
  m_alt :: "string option"
  m_caption :: "string option"
  m_width :: "int option"
  m_height :: "int option"
  m_size :: "int option"

record CreateAlbumInput =
  c_name :: string
  c_description :: "string option"
  c_date :: string
  c_images :: "ImageMeta list"

fun zNumber :: "json option \<Rightarrow> int option" where
  "zNumber (Some (JNum n)) = Some n"
| "zNumber _ = None"

fun zImageMeta :: "json \<Rightarrow> ImageMeta option" where
  "zImageMeta (JObj ob) =
     (case zString (getProp ob ''id'') of None \<Rightarrow> None | Some i \<Rightarrow>
      case zOptional zString (getProp ob ''alt'') of None \<Rightarrow> None | Some al \<Rightarrow>
      case zOptional zString (getProp ob ''caption'') of None \<Rightarrow> None | Some ca \<Rightarrow>
      case zOptional zNumber (getProp ob ''width'') of None \<Rightarrow> None | Some wd \<Rightarrow>
      case zOptional zNumber (getProp ob ''height'') of None \<Rightarrow> None | Some hg \<Rightarrow>
      case zOptional zNumber (getProp ob ''size'') of None \<Rightarrow> None | Some sz \<Rightarrow>
        Some \<lparr>m_id = i, m_alt = al, m_caption = ca, m_width = wd, m_height = hg, m_size = sz\<rparr>)"
| "zImageMeta _ = None"

fun zImageMetas :: "json list \<Rightarrow> ImageMeta list option" where
  "zImageMetas [] = Some []"
| "zImageMetas (j # js) =
     (case zImageMeta j of None \<Rightarrow> None | Some m \<Rightarrow>
      case zImageMetas js of None \<Rightarrow> None | Some ms \<Rightarrow> Some (m # ms))"

fun zImageArray :: "json option \<Rightarrow> ImageMeta list option" where
  "zImageArray (Some (JArr js)) = zImageMetas js"
| "zImageArray _ = None"

text \<open>\<open>createAlbumSchema.parse\<close>.\<close>

fun createAlbumSchema :: "json \<Rightarrow> CreateAlbumInput option" where
  "createAlbumSchema (JObj ob) =
     (case zStringMin1 (getProp ob ''name'') of None \<Rightarrow> None | Some n \<Rightarrow>
      case zOptional zString (getProp ob ''description'') of None \<Rightarrow> None | Some d \<Rightarrow>
      case zString (getProp ob ''date'') of None \<Rightarrow> None | Some dt \<Rightarrow>
      case zImageArray (getProp ob ''images'') of None \<Rightarrow> None | Some ims \<Rightarrow>
        Some \<lparr>c_name = n, c_description = d, c_date = dt, c_images = ims\<rparr>)"
| "createAlbumSchema _ = None"

text \<open>\<open>prisma.album.create\<close> of the create handler.\<close>

definition album_create ::
  "env \<Rightarrow> world \<Rightarrow> string \<Rightarrow> CreateAlbumInput \<Rightarrow> failure + (Album \<times> world)" where
  "album_create e w u v =
     (case jsDate e (c_date v) of
        None \<Rightarrow> Inl (PrismaError InvalidValue)
      | Some d \<Rightarrow>
          if albumUuid e \<in> aid ` set (albumRows (dbase w)) then Inl (PrismaError UniqueConstraint)
          else
            (let album = \<lparr>aid = albumUuid e, name = c_name v, description = c_description v,
                          date = d, uploadedById = u\<rparr>
             in Inr (album,
                     w\<lparr>dbase := (dbase w)\<lparr>albumRows := albumRows (dbase w) @ [album]\<rparr>,
                       log := AlbumRowCreated (albumUuid e) # log w\<rparr>)))"

text \<open>\<open>prisma.image.create\<close>: the row is added unless its id is taken.\<close>

definition image_create :: "world \<Rightarrow> Image \<Rightarrow> failure + (Image \<times> world)" where
  "image_create w img =
     (if iid img \<in> iid ` set (imageRows (dbase w)) then Inl (PrismaError UniqueConstraint)
      else Inr (img,
                w\<lparr>dbase := (dbase w)\<lparr>imageRows := imageRows (dbase w) @ [img]\<rparr>,
                  log := ImageRowCreated (iid img) (url img) # log w\<rparr>))"

text \<open>
  One element of \<open>imagePromises\<close>: the \<open>async\<close> function applied to the file of index
  \<open>ix\<close>. It waits twice, for the upload and for the row; a task is \<open>Pending\<close> before the
  upload has returned, \<open>Uploaded\<close> (with the URL returned) before the row is written,
  and then \<open>Created\<close> with the row or \<open>Failed\<close>.
\<close>

datatype task =
  Pending File nat
  | Uploaded File nat string
  | Created File nat Image
  | Failed File nat

text \<open>\<open>`${album.id}/${dbImageId}.${fileExt}`\<close>.\<close>

definition filePathOf :: "env \<Rightarrow> Album \<Rightarrow> File \<Rightarrow> nat \<Rightarrow> string" where
  "filePathOf e album f ix =
     aid album @ ''/'' @ imageUuid e ix @ ''.'' @ splitPop CHR ''.'' (fname f)"

text \<open>The \<open>data\<close> of the image row; \<open>a || b\<close> takes \<open>b\<close> when \<open>a\<close> is undefined, empty or zero.\<close>

definition imageData :: "env \<Rightarrow> string \<Rightarrow> Album \<Rightarrow> ImageMeta \<Rightarrow> File \<Rightarrow> nat \<Rightarrow> string \<Rightarrow> Image" where
  "imageData e u album m f ix publicUrl_ix =
     \<lparr>iid = imageUuid e ix, url = publicUrl_ix,
      alt = Some (case m_alt m of None \<Rightarrow> fname f | Some a \<Rightarrow> if a \<noteq> [] then a else fname f),
      caption = m_caption m, width = m_width m, height = m_height m,
      fsize = Some (case m_size m of None \<Rightarrow> fbytes f | Some n \<Rightarrow> if n \<noteq> 0 then n else fbytes f),
      albumId = aid album, userId = Some u\<rparr>"

text \<open>
  What a task does between two waits. Reading \<open>validated.images[index]\<close> past the end of
  the array gives \<open>undefined\<close>, and \<open>.alt\<close> of it throws; this happens after the upload.
\<close>

fun taskStep :: "env \<Rightarrow> string \<Rightarrow> Album \<Rightarrow> ImageMeta list \<Rightarrow> task \<Rightarrow> world \<Rightarrow> task \<times> world" where
  "taskStep e u album metas (Pending f ix) w =
     (case uploadFile e w (filePathOf e album f ix) of
        Inl err \<Rightarrow> (Failed f ix, w)
      | Inr (publicUrl_ix, w') \<Rightarrow> (Uploaded f ix publicUrl_ix, w'))"
| "taskStep e u album metas (Uploaded f ix publicUrl_ix) w =
     (if ix < length metas then
        (case image_create w (imageData e u album (metas ! ix) f ix publicUrl_ix) of
           Inl err \<Rightarrow> (Failed f ix, w)
         | Inr (img, w') \<Rightarrow> (Created f ix img, w'))
      else (Failed f ix, w))"
| "taskStep e u album metas (Created f ix img) w = (Created f ix img, w)"
| "taskStep e u album metas (Failed f ix) w = (Failed f ix, w)"

fun finished :: "task \<Rightarrow> bool" where
  "finished (Created f ix img) = True"
| "finished (Failed f ix) = True"
| "finished _ = False"

text \<open>
  \<open>Promise.all(imagePromises)\<close> lets the tasks advance in any order: a step of the
  request advances one task that has not finished.
\<close>

inductive step ::
  "env \<Rightarrow> string \<Rightarrow> Album \<Rightarrow> ImageMeta list \<Rightarrow> task list \<times> world \<Rightarrow> task list \<times> world \<Rightarrow> bool"
  for e u album metas where
  advance: "k < length ts \<Longrightarrow> \<not> finished (ts ! k)
              \<Longrightarrow> taskStep e u album metas (ts ! k) w = (t', w')
              \<Longrightarrow> step e u album metas (ts, w) (ts[k := t'], w')"

text \<open>One order among them: every task runs to its end before the next starts.\<close>

definition runTask :: "env \<Rightarrow> string \<Rightarrow> Album \<Rightarrow> ImageMeta list \<Rightarrow> task \<Rightarrow> world \<Rightarrow> task \<times> world" where
  "runTask e u album metas t w =
     (case taskStep e u album metas t w of (t1, w1) \<Rightarrow> taskStep e u album metas t1 w1)"

fun runAll :: "env \<Rightarrow> string \<Rightarrow> Album \<Rightarrow> ImageMeta list \<Rightarrow> task list \<Rightarrow> world \<Rightarrow> task list \<times> world" where
  "runAll e u album metas [] w = ([], w)"
| "runAll e u album metas (t # ts) w =
     (case runTask e u album metas t w of (t', w') \<Rightarrow>
      case runAll e u album metas ts w' of (ts', w'') \<Rightarrow> (t' # ts', w''))"

text \<open>The tasks \<open>imageFiles.map\<close> starts, and the rows of those that succeeded.\<close>

definition startTasks :: "File list \<Rightarrow> task list" where
  "startTasks fs = map (\<lambda>(f, ix). Pending f ix) (zip fs [0..<length fs])"

fun createdImage :: "task \<Rightarrow> Image option" where
  "createdImage (Created f ix img) = Some img"
| "createdImage _ = None"

definition allCreated :: "task list \<Rightarrow> bool" where
  "allCreated ts = list_all (\<lambda>t. createdImage t \<noteq> None) ts"

text \<open>
  What the handler answers once the tasks have run: \<open>Promise.all\<close> rejects when one task
  has failed, and the \<open>catch\<close> answers 400.
\<close>

definition respond :: "Album \<Rightarrow> task list \<Rightarrow> response" where
  "respond album ts =
     (if allCreated ts then (201, AlbumWithImages album (List.map_filter createdImage ts))
      else (400, Error ''Failed to create album''))"

text \<open>\<open>albums.post("/create", requireAuth, ...)\<close>; \<open>None\<close> for the form: \<open>c.req.formData()\<close> rejects.\<close>

definition albums_create ::
  "env \<Rightarrow> string option \<Rightarrow> AlbumForm option \<Rightarrow> world \<Rightarrow> response \<times> world" where
  "albums_create e user form w =
     requireAuth user w (\<lambda>u.
       case form of None \<Rightarrow> ((400, Error ''Failed to create album''), w)
       | Some fd \<Rightarrow>
       (case albumData fd of
          None \<Rightarrow> ((400, Error ''Album data is required''), w)
        | Some None \<Rightarrow> ((400, Error ''Failed to create album''), w)
        | Some (Some j) \<Rightarrow>
          (case createAlbumSchema j of
             None \<Rightarrow> ((400, ValidationError), w)
           | Some validated \<Rightarrow>
               if length (imageFiles fd) = 0
               then ((400, Error ''At least one image is required''), w)
               else
                 (case album_create e w u validated of
                    Inl err \<Rightarrow> ((400, Error ''Failed to create album''), w)
                  | Inr (album, w1) \<Rightarrow>
                      (case runAll e u album (c_images validated)
                              (startTasks (imageFiles fd)) w1 of
                         (ts, w2) \<Rightarrow> (respond album ts, w2))))))"

text \<open>\<open>prisma.album.findUnique({ where: { id }, include: { images: true } })\<close>.\<close>

definition findAlbum :: "database \<Rightarrow> string \<Rightarrow> Album option" where
  "findAlbum d i = find (\<lambda>a. aid a = i) (albumRows d)"

definition imagesOf :: "database \<Rightarrow> string \<Rightarrow> Image list" where
  "imagesOf d i = filter (\<lambda>img. albumId img = i) (imageRows d)"

text \<open>
  The loop of the delete handler over \<open>existing.images\<close>: the object of each image is
  removed under the last segment of its URL; an empty segment is skipped. The first
  error ends the loop. The result is the error, if any, and the world as the loop left it.
\<close>

fun removeImages :: "env \<Rightarrow> string \<Rightarrow> Image list \<Rightarrow> world \<Rightarrow> failure option \<times> world" where
  "removeImages e i [] w = (None, w)"
| "removeImages e i (img # rest) w =
     (let filePath = splitPop CHR ''/'' (url img)
      in if filePath \<noteq> [] then
           (case deleteFile e w (i @ ''/'' @ filePath) of
              Inl err \<Rightarrow> (Some err, w)
            | Inr w' \<Rightarrow> removeImages e i rest w')
         else removeImages e i rest w)"

text \<open>
  \<open>prisma.album.delete({ where: { id } })\<close>: the images of the album go with it
  (\<open>onDelete: Cascade\<close>), and a reflection that featured one of them loses the reference
  (the optional relation's default, \<open>SetNull\<close>).
\<close>

definition unfeature :: "string list \<Rightarrow> Reflection \<Rightarrow> Reflection" where
  "unfeature gone r =
     (case featuredImageId r of
        None \<Rightarrow> r
      | Some f \<Rightarrow> if f \<in> set gone then r\<lparr>featuredImageId := None\<rparr> else r)"

definition album_delete :: "world \<Rightarrow> string \<Rightarrow> world" where
  "album_delete w i =
     w\<lparr>dbase := (dbase w)\<lparr>albumRows := filter (\<lambda>a. aid a \<noteq> i) (albumRows (dbase w)),
                     imageRows := filter (\<lambda>img. albumId img \<noteq> i) (imageRows (dbase w)),
                     reflectionRows :=
                       map (unfeature (map iid (imagesOf (dbase w) i))) (reflectionRows (dbase w))\<rparr>,
       log := AlbumRowsDeleted i # log w\<rparr>"

text \<open>\<open>albums.delete("/:id", requireAuth, ...)\<close>.\<close>

definition albums_delete :: "env \<Rightarrow> string option \<Rightarrow> string \<Rightarrow> world \<Rightarrow> response \<times> world" where
  "albums_delete e user i w =
     requireAuth user w (\<lambda>u.
       case findAlbum (dbase w) i of
         None \<Rightarrow> ((404, Error ''Album not found''), w)
       | Some existing \<Rightarrow>
           if uploadedById existing \<noteq> u then ((403, Error ''Unauthorized''), w)
           else
             (case removeImages e i (imagesOf (dbase w) i) w of
                (Some err, w') \<Rightarrow> ((400, Error ''Failed to delete album''), w')
              | (None, w') \<Rightarrow> ((200, SuccessTrue), album_delete w' i)))"

text \<open>
  The paths the delete handler removes for a list of images, in order, and the URLs
  of the uploads and of the rows written that a log records.
\<close>

definition removalPaths :: "string \<Rightarrow> Image list \<Rightarrow> string list" where
  "removalPaths i imgs =
     map (\<lambda>img. i @ ''/'' @ splitPop CHR ''/'' (url img))
       (filter (\<lambda>img. splitPop CHR ''/'' (url img) \<noteq> []) imgs)"

fun uploadedUrls :: "event list \<Rightarrow> string list" where
  "uploadedUrls [] = []"
| "uploadedUrls (StorageUploaded p u # es) = u # uploadedUrls es"
| "uploadedUrls (ev # es) = uploadedUrls es"

text \<open>
  In a log (latest first), every image row was written after an upload that returned its URL.
\<close>

fun uploadFirst :: "event list \<Rightarrow> bool" where
  "uploadFirst [] = True"
| "uploadFirst (ImageRowCreated i u # es) = (u \<in> set (uploadedUrls es) \<and> uploadFirst es)"
| "uploadFirst (ev # es) = uploadFirst es"

text \<open>No image row of the database holds a URL that is not the URL of a stored object.\<close>

definition noDangling :: "env \<Rightarrow> world \<Rightarrow> bool" where
  "noDangling e w = list_all (\<lambda>img. url img \<in> publicUrl e ` set (objects w)) (imageRows (dbase w))"

text \<open>
  A task that holds a URL holds one that an upload in the log returned and that a stored
  object has. A state of the request is consistent when this holds of every task, no
  image row dangles and the log has every upload before its row.
\<close>

fun taskOk :: "env \<Rightarrow> world \<Rightarrow> task \<Rightarrow> bool" where
  "taskOk e w (Uploaded f ix u) =
     (u \<in> set (uploadedUrls (log w)) \<and> u \<in> publicUrl e ` set (objects w))"
| "taskOk e w t = True"

definition consistent :: "env \<Rightarrow> task list \<times> world \<Rightarrow> bool" where
  "consistent e c =
     (noDangling e (snd c) \<and> uploadFirst (log (snd c)) \<and> list_all (taskOk e (snd c)) (fst c))"

text \<open>The file and index a task was started for, and whether its upload has returned.\<close>

fun origin :: "task \<Rightarrow> File \<times> nat" where
  "origin (Pending f ix) = (f, ix)"
| "origin (Uploaded f ix u) = (f, ix)"
| "origin (Created f ix img) = (f, ix)"
| "origin (Failed f ix) = (f, ix)"

fun uploadDone :: "task \<Rightarrow> bool" where
  "uploadDone (Uploaded f ix u) = True"
| "uploadDone (Created f ix img) = True"
| "uploadDone t = False"

text \<open>No task has got past its upload when the service fails for its path.\<close>

definition uploadsAllowed :: "env \<Rightarrow> Album \<Rightarrow> task list \<Rightarrow> bool" where
  "uploadsAllowed e album ts =
     list_all (\<lambda>t. uploadDone t
                 \<longrightarrow> \<not> storageFails e (filePathOf e album (fst (origin t)) (snd (origin t)))) ts"

section \<open>Example data for the albums\<close>

text \<open>
  A storage service that never fails and one that fails for the second image; an empty
  world; a form with two files; and the world after that form was handled.
\<close>

definition env_ok :: env where
  "env_ok = \<lparr>storageFails = (\<lambda>p. False), publicUrl = (\<lambda>p. ''https://s/'' @ p),
             albumUuid = ''al1'', imageUuid = (\<lambda>k. if k = 0 then ''i0'' else ''i1''),
             jsDate = (\<lambda>s. Some 0)\<rparr>"

definition env_down :: env where
  "env_down = env_ok\<lparr>storageFails := (\<lambda>p. p = ''al1/i1.png'')\<rparr>"

definition world0 :: world where
  "world0 = \<lparr>dbase = db_empty, objects = [], log = []\<rparr>"

definition album_json :: json where
  "album_json =
     JObj [(''name'', JStr ''Trip''), (''date'', JStr ''2024-01-01''),
           (''images'', JArr [JObj [(''id'', JStr ''x'')], JObj [(''id'', JStr ''y'')]])]"

definition two_files :: "File list" where
  "two_files = [\<lparr>fname = ''a.png'', fbytes = 10\<rparr>, \<lparr>fname = ''b.png'', fbytes = 20\<rparr>]"

definition form2 :: AlbumForm where
  "form2 = \<lparr>albumData = Some (Some album_json), imageFiles = two_files\<rparr>"

definition album1 :: Album where
  "album1 = \<lparr>aid = ''al1'', name = ''Trip'', description = None, date = 0,
             uploadedById = ''alice''\<rparr>"

definition img0 :: Image where
  "img0 = \<lparr>iid = ''i0'', url = ''https://s/al1/i0.png'', alt = Some ''a.png'', caption = None,
           width = None, height = None, fsize = Some 10, albumId = ''al1'',
           userId = Some ''alice''\<rparr>"

definition img1 :: Image where
  "img1 = \<lparr>iid = ''i1'', url = ''https://s/al1/i1.png'', alt = Some ''b.png'', caption = None,
           width = None, height = None, fsize = Some 20, albumId = ''al1'',
           userId = Some ''alice''\<rparr>"

definition world2 :: world where
  "world2 = \<lparr>dbase = db_empty\<lparr>albumRows := [album1], imageRows := [img0, img1]\<rparr>,
             objects = [''al1/i1.png'', ''al1/i0.png''],
             log = [ImageRowCreated ''i1'' ''https://s/al1/i1.png'',
                    StorageUploaded ''al1/i1.png'' ''https://s/al1/i1.png'',
                    ImageRowCreated ''i0'' ''https://s/al1/i0.png'',
                    StorageUploaded ''al1/i0.png'' ''https://s/al1/i0.png'',
                    AlbumRowCreated ''al1'']\<rparr>"

definition two_metas :: "ImageMeta list" where
  "two_metas = [\<lparr>m_id = ''x'', m_alt = None, m_caption = None, m_width = None,
                  m_height = None, m_size = None\<rparr>,
                \<lparr>m_id = ''y'', m_alt = None, m_caption = None, m_width = None,
                  m_height = None, m_size = None\<rparr>]"

text \<open>
  A form with one file whose name has a slash after its last dot, the row its upload
  gives, and the world after that form was handled.
\<close>

definition album_json_one :: json where
  "album_json_one =
     JObj [(''name'', JStr ''Trip''), (''date'', JStr ''2024-01-01''),
           (''images'', JArr [JObj [(''id'', JStr ''x'')]])]"

definition form_slash :: AlbumForm where
  "form_slash = \<lparr>albumData = Some (Some album_json_one),
                 imageFiles = [\<lparr>fname = ''a.b/c'', fbytes = 10\<rparr>]\<rparr>"

definition img_slash :: Image where
  "img_slash = \<lparr>iid = ''i0'', url = ''https://s/al1/i0.b/c'', alt = Some ''a.b/c'',
                caption = None, width = None, height = None, fsize = Some 10,
                albumId = ''al1'', userId = Some ''alice''\<rparr>"

definition world_slash :: world where
  "world_slash = \<lparr>dbase = db_empty\<lparr>albumRows := [album1], imageRows := [img_slash]\<rparr>,
                  objects = [''al1/i0.b/c''],
                  log = [ImageRowCreated ''i0'' ''https://s/al1/i0.b/c'',
                         StorageUploaded ''al1/i0.b/c'' ''https://s/al1/i0.b/c'',
                         AlbumRowCreated ''al1'']\<rparr>"

section \<open>Reading one reflection\<close>

lemma findUnique_draft: "findUnique db_draft ''r1'' = Some alice_draft"
  by (simp add: findUnique_def db_draft_def alice_draft_def)

lemma findUnique_draft_missing: "findUnique db_draft ''r2'' = None"
  by (simp add: findUnique_def db_draft_def alice_draft_def)


text \<open>A published reflection is served to every caller, a draft to its author only.\<close>

lemma get_id_published:
  "findUnique db i = Some r \<Longrightarrow> status r = PUBLISHED
     \<Longrightarrow> reflections_get_id user i db = (200, OneReflection r)"
  by (simp add: reflections_get_id_def)

lemma get_id_draft:
  "findUnique db i = Some r \<Longrightarrow> status r = DRAFT
     \<Longrightarrow> reflections_get_id user i db =
         (if user = Some (authorId r) then (200, OneReflection r) else (404, Error ''Not found''))"
  by (auto simp: reflections_get_id_def)

lemma get_id_missing:
  "findUnique db i = None \<Longrightarrow> reflections_get_id user i db = (404, Error ''Reflection not found'')"
  by (simp add: reflections_get_id_def)

text \<open>
  C1. An anonymous caller who asks for alice's draft \<open>r1\<close> and one who asks for the id
  \<open>r2\<close>, which no reflection has, both get status 404, but not the same response: the
  error message of the hidden draft is \<open>Not found\<close>, that of the missing id
  \<open>Reflection not found\<close>. The two cases can be told apart.
\<close>

theorem hidden_draft_distinguishable:
  "reflections_get_id None ''r1'' db_draft = (404, Error ''Not found'')
   \<and> reflections_get_id None ''r2'' db_draft = (404, Error ''Reflection not found'')
   \<and> reflections_get_id None ''r1'' db_draft \<noteq> reflections_get_id None ''r2'' db_draft"
  by (simp add: reflections_get_id_def findUnique_draft findUnique_draft_missing alice_draft_def)

section \<open>Rows and keys\<close>

lemma find_rid_map:
  assumes "\<And>x. rid (g x) = rid x"
  shows "find (\<lambda>r. rid r = i) (map g xs) = map_option g (find (\<lambda>r. rid r = i) xs)"
  using assms by (induction xs) auto

lemma findUnique_updateRow:
  assumes "\<And>x. rid (f x) = rid x"
  shows "findUnique (updateRow j f db) i
           = map_option (\<lambda>r. if rid r = j then f r else r) (findUnique db i)"
proof -
  have "\<And>x. rid (if rid x = j then f x else x) = rid x"
    using assms by simp
  then show ?thesis
    unfolding findUnique_def updateRow_def by (simp add: find_rid_map)
qed

lemma findUnique_rid: "findUnique db i = Some r \<Longrightarrow> rid r = i"
  unfolding findUnique_def by (auto simp: find_Some_iff)

lemma findUnique_mem: "findUnique db i = Some r \<Longrightarrow> r \<in> set (reflectionRows db)"
  unfolding findUnique_def by (auto simp: find_Some_iff)

lemma find_append_new:
  assumes "i \<notin> rid ` set xs" and "rid r = i"
  shows "find (\<lambda>x. rid x = i) (xs @ [r]) = Some r"
  using assms by (induction xs) auto

lemma rid_stamp: "rid (stamp t r) = rid r"
  by (simp add: stamp_def)

lemma authorId_stamp: "authorId (stamp t r) = authorId r"
  by (simp add: stamp_def)



section \<open>Who may change a reflection\<close>

lemma update_anonymous:
  "reflections_update parseIso now None i body db = ((401, Error ''Unauthorized''), db)"
  by (simp add: reflections_update_def requireAuth_def)

lemma delete_anonymous:
  "reflections_delete None i db = ((401, Error ''Unauthorized''), db)"
  by (simp add: reflections_delete_def requireAuth_def)

lemma publish_anonymous:
  "reflections_publish now None i db = ((401, Error ''Unauthorized''), db)"
  by (simp add: reflections_publish_def requireAuth_def)

lemma update_changes_owner:
  assumes "fst (fst (reflections_update parseIso now user i body db)) = 200
           \<or> snd (reflections_update parseIso now user i body db) \<noteq> db"
  shows "\<exists>r. findUnique db i = Some r \<and> user = Some (authorId r)"
  using assms
  by (auto simp: reflections_update_def requireAuth_def
           split: option.splits if_splits sum.splits prod.splits)

lemma delete_changes_owner:
  assumes "fst (fst (reflections_delete user i db)) = 200
           \<or> snd (reflections_delete user i db) \<noteq> db"
  shows "\<exists>r. findUnique db i = Some r \<and> user = Some (authorId r)"
  using assms
  by (auto simp: reflections_delete_def requireAuth_def
           split: option.splits if_splits sum.splits prod.splits)

lemma publish_changes_owner:
  assumes "fst (fst (reflections_publish now user i db)) = 200
           \<or> snd (reflections_publish now user i db) \<noteq> db"
  shows "\<exists>r. findUnique db i = Some r \<and> user = Some (authorId r)"
  using assms
  by (auto simp: reflections_publish_def requireAuth_def
           split: option.splits if_splits sum.splits prod.splits)

text \<open>
  C2, as the code has it. An anonymous caller gets 401 from each of update, delete and
  publish. For a caller \<open>u\<close>: delete and publish answer 404 when no reflection has the
  id and 403 when the stored \<open>authorId\<close> is not \<open>u\<close>; update does the same when its body
  is parseable JSON, whatever the body holds (an \<open>authorId\<close> in it is never read), and
  answers 400 before any look-up when the body is not parseable. None of these answers
  changes the database, and an operation that answers 200 or changes the database was
  called by the author stored with the reflection.
\<close>

theorem mutation_authorization:
  "(reflections_update parseIso now None i body db = ((401, Error ''Unauthorized''), db)
     \<and> reflections_delete None i db = ((401, Error ''Unauthorized''), db)
     \<and> reflections_publish now None i db = ((401, Error ''Unauthorized''), db))
   \<and> (findUnique db i = None \<longrightarrow>
         reflections_update parseIso now (Some u) i (Some j) db
           = ((404, Error ''Reflection not found''), db)
       \<and> reflections_delete (Some u) i db = ((404, Error ''Reflection not found''), db)
       \<and> reflections_publish now (Some u) i db = ((404, Error ''Reflection not found''), db))
   \<and> (findUnique db i = Some r \<and> authorId r \<noteq> u \<longrightarrow>
         reflections_update parseIso now (Some u) i (Some j) db
           = ((403, Error ''Unauthorized''), db)
       \<and> reflections_delete (Some u) i db = ((403, Error ''Unauthorized''), db)
       \<and> reflections_publish now (Some u) i db = ((403, Error ''Unauthorized''), db))
   \<and> reflections_update parseIso now (Some u) i None db
        = ((400, Error ''Failed to update reflection''), db)
   \<and> (fst (fst (reflections_update parseIso now user i body db)) = 200
        \<or> snd (reflections_update parseIso now user i body db) \<noteq> db
       \<longrightarrow> (\<exists>x. findUnique db i = Some x \<and> user = Some (authorId x)))
   \<and> (fst (fst (reflections_delete user i db)) = 200
        \<or> snd (reflections_delete user i db) \<noteq> db
       \<longrightarrow> (\<exists>x. findUnique db i = Some x \<and> user = Some (authorId x)))
   \<and> (fst (fst (reflections_publish now user i db)) = 200
        \<or> snd (reflections_publish now user i db) \<noteq> db
       \<longrightarrow> (\<exists>x. findUnique db i = Some x \<and> user = Some (authorId x)))"
proof -
  have missing: "findUnique db i = None \<Longrightarrow>
         reflections_update parseIso now (Some u) i (Some j) db
           = ((404, Error ''Reflection not found''), db)
       \<and> reflections_delete (Some u) i db = ((404, Error ''Reflection not found''), db)
       \<and> reflections_publish now (Some u) i db = ((404, Error ''Reflection not found''), db)"
    by (simp add: reflections_update_def reflections_delete_def reflections_publish_def
          requireAuth_def)
  have other: "findUnique db i = Some r \<Longrightarrow> authorId r \<noteq> u \<Longrightarrow>
         reflections_update parseIso now (Some u) i (Some j) db
           = ((403, Error ''Unauthorized''), db)
       \<and> reflections_delete (Some u) i db = ((403, Error ''Unauthorized''), db)
       \<and> reflections_publish now (Some u) i db = ((403, Error ''Unauthorized''), db)"
    by (simp add: reflections_update_def reflections_delete_def reflections_publish_def
          requireAuth_def)
  have nobody: "reflections_update parseIso now (Some u) i None db
        = ((400, Error ''Failed to update reflection''), db)"
    by (simp add: reflections_update_def requireAuth_def)
  show ?thesis
    using missing other nobody update_anonymous delete_anonymous publish_anonymous
      update_changes_owner[of parseIso now user i body db]
      delete_changes_owner[of user i db]
      publish_changes_owner[of now user i db]
    by blast
qed

theorem mutation_authorization_witness:
  "reflections_delete None ''r1'' db_draft = ((401, Error ''Unauthorized''), db_draft)
   \<and> reflections_delete (Some ''bob'') ''r2'' db_draft
       = ((404, Error ''Reflection not found''), db_draft)
   \<and> reflections_update noIso 2000 (Some ''bob'') ''r1''
         (Some (JObj [(''authorId'', JStr ''bob'')])) db_draft
       = ((403, Error ''Unauthorized''), db_draft)
   \<and> reflections_delete (Some ''bob'') ''r1'' db_draft = ((403, Error ''Unauthorized''), db_draft)
   \<and> reflections_publish 2000 (Some ''bob'') ''r1'' db_draft
       = ((403, Error ''Unauthorized''), db_draft)
   \<and> snd (reflections_delete (Some ''alice'') ''r1'' db_draft) \<noteq> db_draft
   \<and> (\<exists>x. findUnique db_draft ''r1'' = Some x \<and> Some ''alice'' = Some (authorId x))"
proof -
  have missing: "findUnique db_draft ''r2'' = None"
    by (simp add: findUnique_def db_draft_def alice_draft_def)
  have found: "findUnique db_draft ''r1'' = Some alice_draft"
    by (simp add: findUnique_def db_draft_def alice_draft_def)
  have other: "authorId alice_draft \<noteq> ''bob''"
    by (simp add: alice_draft_def)
  have changed: "snd (reflections_delete (Some ''alice'') ''r1'' db_draft) \<noteq> db_draft"
    by (simp add: reflections_delete_def requireAuth_def reflection_delete_def found)
       (simp add: db_draft_def alice_draft_def)
  note m404 = mutation_authorization[of noIso 2000 "''r2''" None db_draft "''bob''"
            "JObj [(''authorId'', JStr ''bob'')]" alice_draft None]
  note m403 = mutation_authorization[of noIso 2000 "''r1''" None db_draft "''bob''"
            "JObj [(''authorId'', JStr ''bob'')]" alice_draft "Some ''alice''"]
  have a: "reflections_delete None ''r1'' db_draft = ((401, Error ''Unauthorized''), db_draft)"
    using m403 by blast
  have b: "reflections_delete (Some ''bob'') ''r2'' db_draft
             = ((404, Error ''Reflection not found''), db_draft)"
    using m404 missing by blast
  have c: "reflections_update noIso 2000 (Some ''bob'') ''r1''
             (Some (JObj [(''authorId'', JStr ''bob'')])) db_draft
             = ((403, Error ''Unauthorized''), db_draft)
           \<and> reflections_delete (Some ''bob'') ''r1'' db_draft
               = ((403, Error ''Unauthorized''), db_draft)
           \<and> reflections_publish 2000 (Some ''bob'') ''r1'' db_draft
               = ((403, Error ''Unauthorized''), db_draft)"
    using m403 found other by blast
  have d: "\<exists>x. findUnique db_draft ''r1'' = Some x \<and> Some ''alice'' = Some (authorId x)"
    using m403 changed by blast
  show ?thesis
    using a b c d changed by blast
qed

text \<open>
  C2 as stated fails: bob is not the author of \<open>r1\<close>, and his update with a body that
  is not parseable JSON is answered 400, not 403.
\<close>

theorem non_owner_unparseable_body:
  "findUnique db_draft ''r1'' = Some alice_draft \<and> authorId alice_draft \<noteq> ''bob''
   \<and> reflections_update noIso 2000 (Some ''bob'') ''r1'' None db_draft
       = ((400, Error ''Failed to update reflection''), db_draft)"
  by (simp add: reflections_update_def requireAuth_def findUnique_def db_draft_def alice_draft_def)

section \<open>Listing\<close>














text \<open>
  The forced filter applies to requests for \<open>status=DRAFT\<close> only: an authenticated
  caller who names no status is given every reflection, the drafts of others among them.
\<close>

lemma list_without_status:
  "reflections_get (Some ''bob'') None None db_two
     = (200, ManyReflections [alice_draft, bob_published])"
  by code_simp

section \<open>Publishing\<close>

lemma publish_owner:
  assumes "findUnique db i = Some r" and "authorId r = u"
  shows "reflections_publish t (Some u) i db
           = ((200, OneReflection (stamp t r)), updateRow i (stamp t) db)"
  using assms by (simp add: reflections_publish_def requireAuth_def reflection_publish_def)

lemma findUnique_after_publish:
  assumes "findUnique db i = Some r"
  shows "findUnique (updateRow i (stamp t) db) i = Some (stamp t r)"
  using assms findUnique_rid[OF assms] by (simp add: findUnique_updateRow rid_stamp)

text \<open>
  C4. When the author publishes reflection \<open>r\<close> at time \<open>t1\<close>, the answer is 200 with
  the stored row, now PUBLISHED with \<open>publishDate = t1\<close>. Publishing again at \<open>t2\<close>
  answers 200 and sets \<open>publishDate = t2\<close>: the date is written anew each time, it is
  never null, and it differs from the first one when the two times differ.
\<close>

theorem publish_stamps:
  assumes "findUnique db i = Some r" and "authorId r = u"
  shows "reflections_publish t1 (Some u) i db
           = ((200, OneReflection (stamp t1 r)), updateRow i (stamp t1) db)
         \<and> findUnique (updateRow i (stamp t1) db) i = Some (stamp t1 r)
         \<and> status (stamp t1 r) = PUBLISHED \<and> publishDate (stamp t1 r) = Some t1
         \<and> reflections_publish t2 (Some u) i (updateRow i (stamp t1) db)
           = ((200, OneReflection (stamp t2 (stamp t1 r))),
              updateRow i (stamp t2) (updateRow i (stamp t1) db))
         \<and> findUnique (updateRow i (stamp t2) (updateRow i (stamp t1) db)) i
           = Some (stamp t2 (stamp t1 r))
         \<and> status (stamp t2 (stamp t1 r)) = PUBLISHED
         \<and> publishDate (stamp t2 (stamp t1 r)) = Some t2
         \<and> (t1 \<noteq> t2 \<longrightarrow> publishDate (stamp t2 (stamp t1 r)) \<noteq> publishDate (stamp t1 r))"
proof -
  have a: "findUnique (updateRow i (stamp t1) db) i = Some (stamp t1 r)"
    by (rule findUnique_after_publish[OF assms(1)])
  have b: "authorId (stamp t1 r) = u"
    using assms(2) by (simp add: authorId_stamp)
  have c: "findUnique (updateRow i (stamp t2) (updateRow i (stamp t1) db)) i
             = Some (stamp t2 (stamp t1 r))"
    by (rule findUnique_after_publish[OF a])
  show ?thesis
    using publish_owner[OF assms] publish_owner[OF a b] a c
    by (simp add: stamp_def)
qed

theorem publish_stamps_witness:
  "reflections_publish 2000 (Some ''alice'') ''r1'' db_draft
     = ((200, OneReflection (stamp 2000 alice_draft)), updateRow ''r1'' (stamp 2000) db_draft)
   \<and> publishDate (stamp 2000 alice_draft) = Some 2000
   \<and> publishDate (stamp 3000 (stamp 2000 alice_draft)) = Some 3000
   \<and> publishDate (stamp 3000 (stamp 2000 alice_draft)) \<noteq> publishDate (stamp 2000 alice_draft)"
proof -
  have f: "findUnique db_draft ''r1'' = Some alice_draft"
    by (simp add: findUnique_def db_draft_def alice_draft_def)
  have g: "authorId alice_draft = ''alice''"
    by (simp add: alice_draft_def)
  show ?thesis
    using publish_stamps[OF f g, of 2000 3000] by simp
qed

section \<open>Creating\<close>

lemma createSlug_hello_world: "createSlug ''Hello World'' = ''hello-world''"
  by code_simp

lemma parse_hello_body:
  "createReflectionSchema hello_body =
     Some \<lparr>v_title = ''Hello World'', v_content = ''x'', v_slug = None, v_status = PUBLISHED,
           v_featuredImageId = None, v_tags = None, v_publishDate = None\<rparr>"
  by (simp add: hello_body_def getProp_def)

text \<open>
  C5. alice creates a reflection with \<open>status: "PUBLISHED"\<close> and no \<open>publishDate\<close>:
  the answer is 201 and the stored row is PUBLISHED with a null \<open>publishDate\<close>.
\<close>

theorem created_published_without_date:
  "reflections_create noIso 1000 ''r1'' (Some ''alice'') (Some hello_body) db_empty
     = ((201, OneReflection (alice_draft\<lparr>status := PUBLISHED\<rparr>)),
        db_empty\<lparr>reflectionRows := [alice_draft\<lparr>status := PUBLISHED\<rparr>]\<rparr>)
   \<and> status (alice_draft\<lparr>status := PUBLISHED\<rparr>) = PUBLISHED
   \<and> publishDate (alice_draft\<lparr>status := PUBLISHED\<rparr>) = None"
  by (simp add: reflections_create_def requireAuth_def parse_hello_body slugFor_def
        createSlug_hello_world reflection_create_def imageExists_def connectTags_def
        db_empty_def alice_draft_def Let_def)

lemma create_success:
  assumes "reflections_create parseIso now newId user (Some j) db = ((201, OneReflection r), db')"
  shows "\<exists>u v. user = Some u \<and> createReflectionSchema j = Some v
           \<and> reflection_create parseIso now db newId (slugFor v) u v = Inr (r, db')"
  using assms
  by (auto simp: reflections_create_def requireAuth_def
           split: option.splits sum.splits prod.splits)

lemma reflection_create_Inr:
  assumes "reflection_create parseIso now db i sl a v = Inr (r, db')"
  shows "db' = db\<lparr>reflectionRows := reflectionRows db @ [r]\<rparr> \<and> slug r = sl \<and> rid r = i
         \<and> i \<notin> rid ` set (reflectionRows db)"
  using assms
  by (auto simp: reflection_create_def Let_def split: sum.splits if_splits)

lemma reflection_create_slug_taken:
  assumes "sl \<in> slug ` set (reflectionRows db)"
  shows "\<exists>e. reflection_create parseIso now db i sl a v = Inl e"
  using assms
  by (auto simp: reflection_create_def Let_def split: sum.splits if_splits)

lemma schema_title_slug:
  assumes "createReflectionSchema (JObj ob) = Some v"
  shows "zStringMin1 (getProp ob ''title'') = Some (v_title v)
         \<and> zOptional zStringMin1 (getProp ob ''slug'') = Some (v_slug v)"
  using assms by (auto split: option.splits)

lemma slugFor_no_slug:
  assumes "createReflectionSchema (JObj ob) = Some v" and "getProp ob ''slug'' = None"
    and "zStringMin1 (getProp ob ''title'') = Some t"
  shows "slugFor v = createSlug t"
  using schema_title_slug[OF assms(1)] assms(2,3) by (simp add: slugFor_def)

lemma create_draft_body:
  "reflections_create noIso 1000 ''r1'' (Some ''alice'') (Some (JObj draft_body)) db_empty
     = ((201, OneReflection alice_draft), db_draft)"
  by (simp add: reflections_create_def requireAuth_def draft_body_def getProp_def slugFor_def
        createSlug_hello_world reflection_create_def imageExists_def connectTags_def
        db_empty_def db_draft_def alice_draft_def Let_def)

text \<open>
  C7. After a create with title \<open>t\<close> and no \<open>slug\<close> has answered 201, a create by any
  authenticated caller with the same title and no \<open>slug\<close> answers 400 and leaves the
  database as it was; the first reflection is still stored unchanged under its id.
\<close>

theorem second_create_same_title_fails:
  assumes first: "reflections_create parseIso1 t1 id1 user1 (Some (JObj o1)) db
                    = ((201, OneReflection r1), db1)"
    and same: "getProp o1 ''title'' = getProp o2 ''title''"
    and noslug: "getProp o1 ''slug'' = None" "getProp o2 ''slug'' = None"
  shows "reflections_create parseIso2 t2 id2 (Some u2) (Some (JObj o2)) db1
           = ((400, Error ''Failed to create reflection''), db1)
         \<and> findUnique db1 id1 = Some r1"
proof -
  from create_success[OF first] obtain u1 v1 where
    p1: "createReflectionSchema (JObj o1) = Some v1" and
    c1: "reflection_create parseIso1 t1 db id1 (slugFor v1) u1 v1 = Inr (r1, db1)"
    by blast
  from reflection_create_Inr[OF c1] have
    d1: "db1 = db\<lparr>reflectionRows := reflectionRows db @ [r1]\<rparr>" and
    s1: "slug r1 = slugFor v1" and i1: "rid r1 = id1" and
    n1: "id1 \<notin> rid ` set (reflectionRows db)"
    by simp_all
  have t1: "zStringMin1 (getProp o1 ''title'') = Some (v_title v1)"
    using schema_title_slug[OF p1] by simp
  have sl1: "slugFor v1 = createSlug (v_title v1)"
    by (rule slugFor_no_slug[OF p1 noslug(1) t1])
  have found: "findUnique db1 id1 = Some r1"
    using find_append_new[OF n1 i1] by (simp add: findUnique_def d1)
  have taken: "createSlug (v_title v1) \<in> slug ` set (reflectionRows db1)"
    using s1 sl1 by (simp add: d1)
  have "reflections_create parseIso2 t2 id2 (Some u2) (Some (JObj o2)) db1
          = ((400, Error ''Failed to create reflection''), db1)"
  proof (cases "createReflectionSchema (JObj o2)")
    case None
    then show ?thesis
      by (simp add: reflections_create_def requireAuth_def)
  next
    case (Some v2)
    have "zStringMin1 (getProp o2 ''title'') = Some (v_title v1)"
      using t1 same by simp
    then have "slugFor v2 = createSlug (v_title v1)"
      by (rule slugFor_no_slug[OF Some noslug(2)])
    with taken obtain e where
      "reflection_create parseIso2 t2 db1 id2 (slugFor v2) u2 v2 = Inl e"
      using reflection_create_slug_taken[of "slugFor v2" db1 parseIso2 t2 id2 u2 v2] by auto
    with Some show ?thesis
      by (simp add: reflections_create_def requireAuth_def)
  qed
  with found show ?thesis by simp
qed

theorem second_create_same_title_fails_witness:
  "reflections_create noIso 1000 ''r1'' (Some ''alice'') (Some (JObj draft_body)) db_empty
     = ((201, OneReflection alice_draft), db_draft)
   \<and> reflections_create noIso 5000 ''r7'' (Some ''bob'') (Some (JObj other_body)) db_draft
     = ((400, Error ''Failed to create reflection''), db_draft)
   \<and> findUnique db_draft ''r1'' = Some alice_draft"
proof -
  have same: "getProp draft_body ''title'' = getProp other_body ''title''"
    by (simp add: getProp_def draft_body_def other_body_def)
  have n1: "getProp draft_body ''slug'' = None"
    by (simp add: getProp_def draft_body_def)
  have n2: "getProp other_body ''slug'' = None"
    by (simp add: getProp_def other_body_def)
  show ?thesis
    using second_create_same_title_fails[OF create_draft_body same n1 n2, of noIso 5000 "''r7''" "''bob''"]
      create_draft_body
    by simp
qed

section \<open>Updating a published reflection\<close>









section \<open>Deleting an album\<close>

lemma deleteFile_ok:
  "\<not> storageFails e p \<Longrightarrow>
     deleteFile e w p = Inr (w\<lparr>objects := removeAll p (objects w), log := StorageRemoved p # log w\<rparr>)"
  by (simp add: deleteFile_def)

lemma deleteFile_fail: "storageFails e p \<Longrightarrow> deleteFile e w p = Inl StorageError"
  by (simp add: deleteFile_def)

lemma removalPaths_Nil: "removalPaths i [] = []"
  by (simp add: removalPaths_def)

lemma removalPaths_Cons:
  "removalPaths i (img # rest) =
     (if splitPop CHR ''/'' (url img) \<noteq> []
      then (i @ ''/'' @ splitPop CHR ''/'' (url img)) # removalPaths i rest
      else removalPaths i rest)"
  by (simp add: removalPaths_def)

lemma filter_removeAll:
  "filter P (removeAll p xs) = filter (\<lambda>q. q \<noteq> p \<and> P q) xs"
  by (induction xs) auto

lemma removeImages_all:
  assumes "\<forall>p \<in> set (removalPaths i imgs). \<not> storageFails e p"
  shows "removeImages e i imgs w =
           (None, w\<lparr>objects := filter (\<lambda>p. p \<notin> set (removalPaths i imgs)) (objects w),
                    log := rev (map StorageRemoved (removalPaths i imgs)) @ log w\<rparr>)"
  using assms
proof (induction imgs arbitrary: w)
  case Nil
  then show ?case by (simp add: removalPaths_Nil)
next
  case (Cons img rest)
  show ?case
  proof (cases "splitPop CHR ''/'' (url img) = []")
    case True
    with Cons show ?thesis by (simp add: removalPaths_Cons)
  next
    case False
    let ?p = "i @ ''/'' @ splitPop CHR ''/'' (url img)"
    from Cons.prems False have ok: "\<not> storageFails e ?p"
      and rest: "\<forall>p \<in> set (removalPaths i rest). \<not> storageFails e p"
      by (simp_all add: removalPaths_Cons)
    show ?thesis
      using False Cons.IH[OF rest] ok
      by (simp add: removalPaths_Cons deleteFile_def Let_def filter_removeAll)
  qed
qed

lemma removeImages_some_fails:
  assumes "\<exists>p \<in> set (removalPaths i imgs). storageFails e p"
  shows "\<exists>err w' n. removeImages e i imgs w = (Some err, w') \<and> dbase w' = dbase w
           \<and> log w' = rev (map StorageRemoved (take n (removalPaths i imgs))) @ log w"
  using assms
proof (induction imgs arbitrary: w)
  case Nil
  then show ?case by (simp add: removalPaths_Nil)
next
  case (Cons img rest)
  show ?case
  proof (cases "splitPop CHR ''/'' (url img) = []")
    case True
    with Cons show ?thesis by (simp add: removalPaths_Cons)
  next
    case False
    let ?p = "i @ ''/'' @ splitPop CHR ''/'' (url img)"
    show ?thesis
    proof (cases "storageFails e ?p")
      case True
      have "removeImages e i (img # rest) w = (Some StorageError, w)"
        using False True by (simp add: deleteFile_def Let_def)
      moreover have "log w = rev (map StorageRemoved (take 0 (removalPaths i (img # rest)))) @ log w"
        by simp
      ultimately show ?thesis by blast
    next
      case ok: False
      let ?w1 = "w\<lparr>objects := removeAll ?p (objects w), log := StorageRemoved ?p # log w\<rparr>"
      from Cons.prems False ok have "\<exists>p \<in> set (removalPaths i rest). storageFails e p"
        by (auto simp: removalPaths_Cons)
      from Cons.IH[OF this, of ?w1] obtain err w' n where
        r: "removeImages e i rest ?w1 = (Some err, w')" and d: "dbase w' = dbase ?w1"
        and l: "log w' = rev (map StorageRemoved (take n (removalPaths i rest))) @ log ?w1"
        by blast
      have "removeImages e i (img # rest) w = (Some err, w')"
        using False r ok by (simp add: deleteFile_def Let_def)
      moreover have "dbase w' = dbase w" using d by simp
      moreover have "log w' = rev (map StorageRemoved (take (Suc n) (removalPaths i (img # rest)))) @ log w"
        using l False by (simp add: removalPaths_Cons)
      ultimately show ?thesis by blast
    qed
  qed
qed

lemma findAlbum_deleted: "findAlbum (dbase (album_delete w i)) i = None"
  by (simp add: findAlbum_def album_delete_def find_None_iff)

lemma imagesOf_deleted: "imagesOf (dbase (album_delete w i)) i = []"
  by (simp add: imagesOf_def album_delete_def filter_empty_conv)
lemma world2_album: "findAlbum (dbase world2) ''al1'' = Some album1 \<and> uploadedById album1 = ''alice''"
  by (simp add: findAlbum_def world2_def db_empty_def album1_def)

lemma world2_paths:
  "removalPaths ''al1'' (imagesOf (dbase world2) ''al1'') = [''al1/i0.png'', ''al1/i1.png'']"
  by (simp add: removalPaths_def imagesOf_def world2_def db_empty_def img0_def img1_def
        splitPop_def)

text \<open>
  What the delete handler does for the owner of an album: it removes, for every image
  of the album, the path it derives from the last segment of the image's URL (an image
  whose URL ends in a slash is skipped), and only then deletes the rows. On success the
  log gains these removals, in the order of the images, and after them the deletion of
  the rows, and the answer is 200. When the storage service fails for one of these paths,
  the answer is 400 and the database is as before: the log gains removals only.
\<close>

lemma album_delete_storage_first:
  assumes "findAlbum (dbase w) i = Some a" and "uploadedById a = u"
  shows "((\<forall>p \<in> set (removalPaths i (imagesOf (dbase w) i)). \<not> storageFails e p) \<longrightarrow>
            (\<exists>w'. albums_delete e (Some u) i w = ((200, SuccessTrue), w')
               \<and> log w' = AlbumRowsDeleted i
                            # rev (map StorageRemoved (removalPaths i (imagesOf (dbase w) i))) @ log w
               \<and> set (objects w') = set (objects w) - set (removalPaths i (imagesOf (dbase w) i))
               \<and> findAlbum (dbase w') i = None \<and> imagesOf (dbase w') i = []))
         \<and> ((\<exists>p \<in> set (removalPaths i (imagesOf (dbase w) i)). storageFails e p) \<longrightarrow>
            (\<exists>w' n. albums_delete e (Some u) i w = ((400, Error ''Failed to delete album''), w')
               \<and> dbase w' = dbase w
               \<and> log w' = rev (map StorageRemoved (take n (removalPaths i (imagesOf (dbase w) i))))
                            @ log w))"
proof (intro conjI impI)
  let ?imgs = "imagesOf (dbase w) i"
  let ?w1 = "w\<lparr>objects := filter (\<lambda>p. p \<notin> set (removalPaths i ?imgs)) (objects w),
               log := rev (map StorageRemoved (removalPaths i ?imgs)) @ log w\<rparr>"
  assume "\<forall>p \<in> set (removalPaths i ?imgs). \<not> storageFails e p"
  then have r: "removeImages e i ?imgs w = (None, ?w1)"
    by (rule removeImages_all)
  have "albums_delete e (Some u) i w = ((200, SuccessTrue), album_delete ?w1 i)"
    using assms r by (simp add: albums_delete_def requireAuth_def)
  moreover have "log (album_delete ?w1 i)
                   = AlbumRowsDeleted i # rev (map StorageRemoved (removalPaths i ?imgs)) @ log w"
    by (simp add: album_delete_def)
  moreover have "set (objects (album_delete ?w1 i)) = set (objects w) - set (removalPaths i ?imgs)"
    by (auto simp: album_delete_def)
  ultimately show "\<exists>w'. albums_delete e (Some u) i w = ((200, SuccessTrue), w')
               \<and> log w' = AlbumRowsDeleted i # rev (map StorageRemoved (removalPaths i ?imgs)) @ log w
               \<and> set (objects w') = set (objects w) - set (removalPaths i ?imgs)
               \<and> findAlbum (dbase w') i = None \<and> imagesOf (dbase w') i = []"
    using findAlbum_deleted imagesOf_deleted by blast
next
  let ?imgs = "imagesOf (dbase w) i"
  assume "\<exists>p \<in> set (removalPaths i ?imgs). storageFails e p"
  from removeImages_some_fails[OF this, of w] obtain err w' n where
    r: "removeImages e i ?imgs w = (Some err, w')" and d: "dbase w' = dbase w"
    and l: "log w' = rev (map StorageRemoved (take n (removalPaths i ?imgs))) @ log w"
    by blast
  have "albums_delete e (Some u) i w = ((400, Error ''Failed to delete album''), w')"
    using assms r by (simp add: albums_delete_def requireAuth_def)
  with d l show "\<exists>w' n. albums_delete e (Some u) i w = ((400, Error ''Failed to delete album''), w')
               \<and> dbase w' = dbase w
               \<and> log w' = rev (map StorageRemoved (take n (removalPaths i ?imgs))) @ log w"
    by blast
qed

lemma album_delete_storage_first_example:
  "(\<exists>w'. albums_delete env_ok (Some ''alice'') ''al1'' world2 = ((200, SuccessTrue), w')
       \<and> log w' = AlbumRowsDeleted ''al1''
                    # rev (map StorageRemoved [''al1/i0.png'', ''al1/i1.png'']) @ log world2
       \<and> findAlbum (dbase w') ''al1'' = None \<and> imagesOf (dbase w') ''al1'' = [])
   \<and> (\<exists>w'. albums_delete env_down (Some ''alice'') ''al1'' world2
              = ((400, Error ''Failed to delete album''), w')
          \<and> dbase w' = dbase world2)"
proof -
  have a: "findAlbum (dbase world2) ''al1'' = Some album1" and b: "uploadedById album1 = ''alice''"
    using world2_album by simp_all
  have ok: "\<forall>p \<in> set (removalPaths ''al1'' (imagesOf (dbase world2) ''al1'')).
              \<not> storageFails env_ok p"
    by (simp add: env_ok_def)
  have down: "\<exists>p \<in> set (removalPaths ''al1'' (imagesOf (dbase world2) ''al1'')).
              storageFails env_down p"
    by (simp add: world2_paths env_down_def env_ok_def)
  note T1 = album_delete_storage_first[OF a b, of env_ok]
  note T2 = album_delete_storage_first[OF a b, of env_down]
  have one: "\<exists>w'. albums_delete env_ok (Some ''alice'') ''al1'' world2 = ((200, SuccessTrue), w')
       \<and> log w' = AlbumRowsDeleted ''al1''
                    # rev (map StorageRemoved (removalPaths ''al1'' (imagesOf (dbase world2) ''al1'')))
                      @ log world2
       \<and> findAlbum (dbase w') ''al1'' = None \<and> imagesOf (dbase w') ''al1'' = []"
    using T1 ok by blast
  have two: "\<exists>w'. albums_delete env_down (Some ''alice'') ''al1'' world2
              = ((400, Error ''Failed to delete album''), w')
          \<and> dbase w' = dbase world2"
    using T2 down by blast
  show ?thesis
    using one two unfolding world2_paths by blast
qed

text \<open>
  C9. alice creates an album with one file named \<open>a.b/c\<close>: the answer is 201 and the
  object is stored at \<open>al1/i0.b/c\<close>. She then deletes the album, the storage service
  never failing: the handler removes the path \<open>al1/c\<close>, which holds no object, deletes
  the rows and answers 200. The object of the image is still stored, and no row refers
  to it any more.
\<close>

theorem delete_leaves_object:
  "albums_create env_ok (Some ''alice'') (Some form_slash) world0
     = ((201, AlbumWithImages album1 [img_slash]), world_slash)
   \<and> objects world_slash = [''al1/i0.b/c'']
   \<and> fst (albums_delete env_ok (Some ''alice'') ''al1'' world_slash) = (200, SuccessTrue)
   \<and> log (snd (albums_delete env_ok (Some ''alice'') ''al1'' world_slash))
       = AlbumRowsDeleted ''al1'' # StorageRemoved ''al1/c'' # log world_slash
   \<and> albumRows (dbase (snd (albums_delete env_ok (Some ''alice'') ''al1'' world_slash))) = []
   \<and> imageRows (dbase (snd (albums_delete env_ok (Some ''alice'') ''al1'' world_slash))) = []
   \<and> objects (snd (albums_delete env_ok (Some ''alice'') ''al1'' world_slash)) = [''al1/i0.b/c'']"
  by code_simp

section \<open>Creating an album\<close>

lemma uploadFile_Inr:
  assumes "uploadFile e w p = Inr (u, w')"
  shows "u = publicUrl e p \<and> \<not> storageFails e p
         \<and> w' = w\<lparr>objects := p # objects w, log := StorageUploaded p u # log w\<rparr>"
  using assms by (auto simp: uploadFile_def split: if_splits)

lemma uploadFile_fails: "storageFails e p \<Longrightarrow> uploadFile e w p = Inl StorageError"
  by (simp add: uploadFile_def)

lemma image_create_Inr:
  assumes "image_create w img = Inr (r, w')"
  shows "r = img
         \<and> w' = w\<lparr>dbase := (dbase w)\<lparr>imageRows := imageRows (dbase w) @ [img]\<rparr>,
                  log := ImageRowCreated (iid img) (url img) # log w\<rparr>"
  using assms by (auto simp: image_create_def split: if_splits)

lemma url_imageData: "url (imageData e u album m f ix pu) = pu"
  by (simp add: imageData_def)

lemma taskStep_cases:
  assumes "taskStep e u album metas t w = (t', w')"
  obtains
    (same) "w' = w" and "t' = t \<or> (\<exists>f ix. t' = Failed f ix)"
  | (upload) f ix p where "t = Pending f ix" and "p = filePathOf e album f ix"
      and "\<not> storageFails e p" and "t' = Uploaded f ix (publicUrl e p)"
      and "w' = w\<lparr>objects := p # objects w, log := StorageUploaded p (publicUrl e p) # log w\<rparr>"
  | (row) f ix pu img where "t = Uploaded f ix pu" and "url img = pu" and "t' = Created f ix img"
      and "w' = w\<lparr>dbase := (dbase w)\<lparr>imageRows := imageRows (dbase w) @ [img]\<rparr>,
                   log := ImageRowCreated (iid img) pu # log w\<rparr>"
proof (cases t)
  case (Pending f ix)
  show ?thesis
  proof (cases "uploadFile e w (filePathOf e album f ix)")
    case (Inl err)
    with assms Pending show ?thesis by (intro same) auto
  next
    case (Inr r)
    obtain pu w1 where r: "r = (pu, w1)" by (cases r)
    from uploadFile_Inr[OF Inr[unfolded r]] assms Pending Inr r show ?thesis
      by (intro upload[of f ix "filePathOf e album f ix"]) auto
  qed
next
  case (Uploaded f ix pu)
  show ?thesis
  proof (cases "ix < length metas")
    case False
    with assms Uploaded show ?thesis by (intro same) auto
  next
    case True
    let ?img = "imageData e u album (metas ! ix) f ix pu"
    show ?thesis
    proof (cases "image_create w ?img")
      case (Inl err)
      with assms Uploaded True show ?thesis by (intro same) auto
    next
      case (Inr r)
      obtain i1 w1 where r: "r = (i1, w1)" by (cases r)
      from image_create_Inr[OF Inr[unfolded r]] assms Uploaded True Inr r show ?thesis
        by (intro row[of f ix pu ?img]) (auto simp: url_imageData)
    qed
  qed
next
  case (Created f ix img)
  with assms show ?thesis by (intro same) auto
next
  case (Failed f ix)
  with assms show ?thesis by (intro same) auto
qed

lemma noDangling_iff:
  "noDangling e w = (\<forall>img \<in> set (imageRows (dbase w)). url img \<in> publicUrl e ` set (objects w))"
  by (simp add: noDangling_def list_all_iff)

lemma uploadedUrls_StorageUploaded:
  "uploadedUrls (StorageUploaded p u # es) = u # uploadedUrls es"
  by simp

lemma uploadedUrls_ImageRowCreated:
  "uploadedUrls (ImageRowCreated i u # es) = uploadedUrls es"
  by simp

lemma taskStep_consistent:
  assumes st: "taskStep e u album metas t w = (t', w')"
    and ok: "taskOk e w t" and nd: "noDangling e w" and uf: "uploadFirst (log w)"
  shows "noDangling e w' \<and> uploadFirst (log w') \<and> taskOk e w' t'
         \<and> (\<forall>t2. taskOk e w t2 \<longrightarrow> taskOk e w' t2)"
  using st
proof (cases rule: taskStep_cases)
  case same
  with ok nd uf show ?thesis by auto
next
  case (upload f ix p)
  have mono: "\<forall>t2. taskOk e w t2 \<longrightarrow> taskOk e w' t2"
  proof (intro allI impI)
    fix t2 assume "taskOk e w t2"
    then show "taskOk e w' t2" using upload(5) by (cases t2) auto
  qed
  have "noDangling e w'"
    using nd upload(5) by (auto simp: noDangling_iff)
  moreover have "uploadFirst (log w')"
    using uf upload(5) by simp
  moreover have "taskOk e w' t'"
    using upload(4,5) by simp
  ultimately show ?thesis using mono by blast
next
  case (row f ix pu img)
  from ok row(1) have pu: "pu \<in> set (uploadedUrls (log w))" "pu \<in> publicUrl e ` set (objects w)"
    by simp_all
  have mono: "\<forall>t2. taskOk e w t2 \<longrightarrow> taskOk e w' t2"
  proof (intro allI impI)
    fix t2 assume "taskOk e w t2"
    then show "taskOk e w' t2" using row(4) by (cases t2) auto
  qed
  have "noDangling e w'"
    using nd pu(2) row(2,4) by (auto simp: noDangling_iff)
  moreover have "uploadFirst (log w')"
    using uf pu(1) row(4) by simp
  moreover have "taskOk e w' t'"
    using row(3) by simp
  ultimately show ?thesis using mono by blast
qed

lemma step_consistent:
  assumes "step e u album metas c c'" and "consistent e c"
  shows "consistent e c'"
  using assms
proof (cases rule: step.cases)
  case (advance k ts w t' w')
  from assms(2) advance(1) have nd: "noDangling e w" and uf: "uploadFirst (log w)"
    and all: "\<forall>t \<in> set ts. taskOk e w t"
    by (simp_all add: consistent_def list_all_iff)
  from all advance(3) have "taskOk e w (ts ! k)" by simp
  from taskStep_consistent[OF advance(5) this nd uf]
  have a: "noDangling e w'" and b: "uploadFirst (log w')" and c: "taskOk e w' t'"
    and m: "\<forall>t2. taskOk e w t2 \<longrightarrow> taskOk e w' t2"
    by blast+
  have "\<forall>t \<in> set (ts[k := t']). taskOk e w' t"
  proof
    fix t assume "t \<in> set (ts[k := t'])"
    then have "t = t' \<or> t \<in> set ts"
      using set_update_subset_insert[of ts k t'] by auto
    with c m all show "taskOk e w' t" by blast
  qed
  with a b advance(2) show ?thesis
    by (simp add: consistent_def list_all_iff)
qed

lemma steps_consistent:
  assumes "(step e u album metas)\<^sup>*\<^sup>* c c'" and "consistent e c"
  shows "consistent e c'"
  using assms by (induction rule: rtranclp_induct) (auto intro: step_consistent)

lemma consistent_start:
  "noDangling e w \<Longrightarrow> uploadFirst (log w) \<Longrightarrow> consistent e (startTasks fs, w)"
  by (auto simp: consistent_def startTasks_def list_all_iff)
lemma origin_taskStep:
  "taskStep e u album metas t w = (t', w') \<Longrightarrow> origin t' = origin t"
  by (cases t) (auto split: sum.splits if_splits prod.splits)

lemma uploadDone_taskStep:
  assumes "taskStep e u album metas t w = (t', w')" and "uploadDone t'"
  shows "uploadDone t
         \<or> \<not> storageFails e (filePathOf e album (fst (origin t)) (snd (origin t)))"
proof (cases t)
  case (Pending f ix)
  show ?thesis
  proof (cases "storageFails e (filePathOf e album f ix)")
    case True
    with assms Pending show ?thesis by (auto simp: uploadFile_fails)
  next
    case False
    with Pending show ?thesis by simp
  qed
qed (use assms in auto)

lemma step_origin:
  assumes "step e u album metas (ts, w) (ts', w')"
  shows "map origin ts' = map origin ts
         \<and> (uploadsAllowed e album ts \<longrightarrow> uploadsAllowed e album ts')"
  using assms
proof (cases rule: step.cases)
  case (advance k t')
  have o: "origin t' = origin (ts ! k)"
    by (rule origin_taskStep[OF advance(4)])
  have m: "map origin (ts[k := t']) = map origin ts"
    using o advance(2) by (simp add: map_update list_update_same_conv)
  have "uploadsAllowed e album (ts[k := t'])" if a: "uploadsAllowed e album ts"
  proof -
    have all: "\<forall>t \<in> set ts. uploadDone t
                 \<longrightarrow> \<not> storageFails e (filePathOf e album (fst (origin t)) (snd (origin t)))"
      using a by (simp add: uploadsAllowed_def list_all_iff)
    have new: "uploadDone t'
                 \<longrightarrow> \<not> storageFails e (filePathOf e album (fst (origin t')) (snd (origin t')))"
      using uploadDone_taskStep[OF advance(4)] all advance(2) o by auto
    have "\<forall>t \<in> set (ts[k := t']). uploadDone t
                 \<longrightarrow> \<not> storageFails e (filePathOf e album (fst (origin t)) (snd (origin t)))"
    proof
      fix t assume "t \<in> set (ts[k := t'])"
      then have "t = t' \<or> t \<in> set ts"
        using set_update_subset_insert[of ts k t'] by auto
      with new all show "uploadDone t
                 \<longrightarrow> \<not> storageFails e (filePathOf e album (fst (origin t)) (snd (origin t)))"
        by blast
    qed
    then show ?thesis by (simp add: uploadsAllowed_def list_all_iff)
  qed
  with m advance(1) show ?thesis by simp
qed

lemma steps_origin:
  assumes "(step e u album metas)\<^sup>*\<^sup>* (ts, w) (ts', w')"
  shows "map origin ts' = map origin ts
         \<and> (uploadsAllowed e album ts \<longrightarrow> uploadsAllowed e album ts')"
  using assms
proof (induction rule: rtranclp_induct2)
  case refl
  show ?case by simp
next
  case (step ts1 w1 ts2 w2)
  from step_origin[OF step(2)] step(3) show ?case by auto
qed

lemma origin_startTasks: "map origin (startTasks fs) = zip fs [0..<length fs]"
  by (simp add: startTasks_def map_idI split_def)

lemma uploadsAllowed_startTasks: "uploadsAllowed e album (startTasks fs)"
  by (auto simp: uploadsAllowed_def startTasks_def list_all_iff)

lemma respond_failed:
  assumes "t \<in> set ts" and "\<not> uploadDone t"
  shows "respond album ts = (400, Error ''Failed to create album'')"
proof -
  have "createdImage t = None"
    using assms(2) by (cases t) simp_all
  with assms(1) have "\<not> allCreated ts"
    by (auto simp: allCreated_def list_all_iff)
  then show ?thesis by (simp add: respond_def)
qed

lemma failed_upload_answers_400:
  assumes run: "(step e u album metas)\<^sup>*\<^sup>* (startTasks fs, w) (ts, w')"
    and k: "k < length fs" and f: "storageFails e (filePathOf e album (fs ! k) k)"
  shows "respond album ts = (400, Error ''Failed to create album'')"
proof -
  from steps_origin[OF run] have
    o: "map origin ts = zip fs [0..<length fs]" and a: "uploadsAllowed e album ts"
    by (simp_all add: origin_startTasks uploadsAllowed_startTasks)
  from o have len: "length ts = length fs"
    using length_map[of origin ts] by simp
  from o k len have ok: "origin (ts ! k) = (fs ! k, k)"
    using nth_map[of k ts origin] by simp
  have mem: "ts ! k \<in> set ts"
    using k len by simp
  with a have "uploadDone (ts ! k)
         \<longrightarrow> \<not> storageFails e (filePathOf e album (fst (origin (ts ! k))) (snd (origin (ts ! k))))"
    by (simp add: uploadsAllowed_def list_all_iff)
  with f ok have "\<not> uploadDone (ts ! k)" by simp
  with mem show ?thesis by (rule respond_failed)
qed

lemma finished_taskStep: "finished t \<Longrightarrow> taskStep e u album metas t w = (t, w)"
  by (cases t) simp_all

lemma taskStep_steps:
  "(step e u album metas)\<^sup>*\<^sup>* (pre @ t # post, w)
     (pre @ fst (taskStep e u album metas t w) # post, snd (taskStep e u album metas t w))"
proof (cases "finished t")
  case True
  then show ?thesis by (simp add: finished_taskStep)
next
  case False
  have "step e u album metas (pre @ t # post, w)
          ((pre @ t # post)[length pre := fst (taskStep e u album metas t w)],
           snd (taskStep e u album metas t w))"
    using False by (intro step.advance) simp_all
  then show ?thesis by (simp add: r_into_rtranclp)
qed

lemma runTask_steps:
  "(step e u album metas)\<^sup>*\<^sup>* (pre @ t # post, w)
     (pre @ fst (runTask e u album metas t w) # post, snd (runTask e u album metas t w))"
proof -
  obtain t1 w1 where a: "taskStep e u album metas t w = (t1, w1)"
    by (cases "taskStep e u album metas t w")
  have "(step e u album metas)\<^sup>*\<^sup>* (pre @ t # post, w) (pre @ t1 # post, w1)"
    using taskStep_steps[of e u album metas pre t post w] a by simp
  moreover have "(step e u album metas)\<^sup>*\<^sup>* (pre @ t1 # post, w1)
     (pre @ fst (taskStep e u album metas t1 w1) # post, snd (taskStep e u album metas t1 w1))"
    by (rule taskStep_steps)
  ultimately show ?thesis
    using a by (simp add: runTask_def)
qed

lemma runAll_steps:
  "(step e u album metas)\<^sup>*\<^sup>* (pre @ ts, w)
     (pre @ fst (runAll e u album metas ts w), snd (runAll e u album metas ts w))"
proof (induction ts arbitrary: pre w)
  case Nil
  show ?case by simp
next
  case (Cons t ts)
  obtain t1 w1 where a: "runTask e u album metas t w = (t1, w1)"
    by (cases "runTask e u album metas t w")
  obtain ts2 w2 where b: "runAll e u album metas ts w1 = (ts2, w2)"
    by (cases "runAll e u album metas ts w1")
  have "(step e u album metas)\<^sup>*\<^sup>* (pre @ t # ts, w) (pre @ t1 # ts, w1)"
    using runTask_steps[of e u album metas pre t ts w] a by simp
  moreover have "(step e u album metas)\<^sup>*\<^sup>* ((pre @ [t1]) @ ts, w1) ((pre @ [t1]) @ ts2, w2)"
    using Cons.IH[of "pre @ [t1]" w1] b by simp
  ultimately show ?case
    using a b by simp
qed

lemma runAll_run:
  "(step e u album metas)\<^sup>*\<^sup>* (ts, w)
     (fst (runAll e u album metas ts w), snd (runAll e u album metas ts w))"
  using runAll_steps[of e u album metas "[]" ts w] by simp

lemma album_create_Inr:
  assumes "album_create e w u v = Inr (album, w1)"
  shows "aid album = albumUuid e \<and> objects w1 = objects w
         \<and> imageRows (dbase w1) = imageRows (dbase w)
         \<and> log w1 = AlbumRowCreated (albumUuid e) # log w"
  using assms by (auto simp: album_create_def Let_def split: option.splits if_splits)

lemma filePathOf_aid:
  "aid album = albumUuid e \<Longrightarrow>
     filePathOf e album f ix = albumUuid e @ ''/'' @ imageUuid e ix @ ''.'' @ splitPop CHR ''.'' (fname f)"
  by (simp add: filePathOf_def)

lemma albums_create_cases:
  obtains
    (early) "snd (albums_create e user form w) = w"
      and "fst (fst (albums_create e user form w)) = (if user = None then 401 else 400)"
  | (tasks) u fd v album w1 where "user = Some u" and "form = Some fd"
      and "album_create e w u v = Inr (album, w1)"
      and "albums_create e user form w =
             (respond album (fst (runAll e u album (c_images v) (startTasks (imageFiles fd)) w1)),
              snd (runAll e u album (c_images v) (startTasks (imageFiles fd)) w1))"
proof (cases user)
  case None
  then show ?thesis by (intro early) (simp_all add: albums_create_def requireAuth_def)
next
  case u: (Some u)
  show ?thesis
  proof (cases form)
    case None
    with u show ?thesis by (intro early) (simp_all add: albums_create_def requireAuth_def)
  next
    case fd: (Some fd)
    show ?thesis
    proof (cases "albumData fd")
      case None
      with u fd show ?thesis by (intro early) (simp_all add: albums_create_def requireAuth_def)
    next
      case ad: (Some a)
      show ?thesis
      proof (cases a)
        case None
        with u fd ad show ?thesis
          by (intro early) (simp_all add: albums_create_def requireAuth_def)
      next
        case j: (Some j)
        show ?thesis
        proof (cases "createAlbumSchema j")
          case None
          with u fd ad j show ?thesis
            by (intro early) (simp_all add: albums_create_def requireAuth_def)
        next
          case v: (Some v)
          show ?thesis
          proof (cases "imageFiles fd = []")
            case True
            with u fd ad j v show ?thesis
              by (intro early) (simp_all add: albums_create_def requireAuth_def)
          next
            case ne: False
            show ?thesis
            proof (cases "album_create e w u v")
              case (Inl err)
              with u fd ad j v ne show ?thesis
                by (intro early) (simp_all add: albums_create_def requireAuth_def)
            next
              case (Inr r)
              obtain album w1 where r: "r = (album, w1)" by (cases r)
              have "albums_create e user form w =
                (respond album (fst (runAll e u album (c_images v) (startTasks (imageFiles fd)) w1)),
                 snd (runAll e u album (c_images v) (startTasks (imageFiles fd)) w1))"
                using u fd ad j v ne Inr r
                by (simp add: albums_create_def requireAuth_def split: prod.splits)
              with u fd Inr r show ?thesis by (intro tasks[of u fd v album w1]) simp_all
            qed
          qed
        qed
      qed
    qed
  qed
qed
text \<open>The form with two files, handled with a storage service that works: 201, both rows written.\<close>

lemma create_two_images:
  "albums_create env_ok (Some ''alice'') (Some form2) world0
     = ((201, AlbumWithImages album1 [img0, img1]), world2)"
  by code_simp

lemma splitPop_b_png: "splitPop CHR ''.'' ''b.png'' = ''png''"
  by (simp add: splitPop_def)

lemma world0_consistent: "noDangling env_down world0 \<and> uploadFirst (log world0)"
  by (simp add: noDangling_def world0_def db_empty_def)

lemma second_upload_fails:
  "1 < length two_files \<and> storageFails env_down (filePathOf env_down album1 (two_files ! 1) 1)"
  by (simp add: two_files_def filePathOf_def env_down_def env_ok_def album1_def splitPop_b_png)

lemma second_upload_fails_form:
  "1 < length (imageFiles form2)
   \<and> storageFails env_down
        (albumUuid env_down @ ''/'' @ imageUuid env_down 1 @ ''.''
           @ splitPop CHR ''.'' (fname (imageFiles form2 ! 1)))"
  by (simp add: form2_def two_files_def env_down_def env_ok_def splitPop_b_png)

text \<open>
  C8. Start from a world where no image row dangles and where the log has every upload
  before its row. Then, in whatever order the tasks of \<open>Promise.all\<close> take their steps,
  every state reached still has no image row whose URL is not that of a stored object,
  and the log still has, before every image row written, the upload that returned its
  URL; and when the upload of one of the files fails, the answer is 400. The same holds
  of the handler as it is run here: the world it leaves has no dangling row, its log has
  the uploads first, and a request by an authenticated caller with a form in which the
  upload of one file fails is answered 400.
\<close>

theorem album_create_upload_first:
  assumes "noDangling e w" and "uploadFirst (log w)"
  shows "((step e u album metas)\<^sup>*\<^sup>* (startTasks fs, w) (ts, w') \<longrightarrow>
            noDangling e w' \<and> uploadFirst (log w')
            \<and> ((\<exists>k<length fs. storageFails e (filePathOf e album (fs ! k) k))
                 \<longrightarrow> respond album ts = (400, Error ''Failed to create album'')))
         \<and> noDangling e (snd (albums_create e user form w))
         \<and> uploadFirst (log (snd (albums_create e user form w)))
         \<and> (user \<noteq> None \<and> form = Some fd
             \<and> (\<exists>k<length (imageFiles fd).
                   storageFails e (albumUuid e @ ''/'' @ imageUuid e k @ ''.''
                                     @ splitPop CHR ''.'' (fname (imageFiles fd ! k))))
            \<longrightarrow> fst (fst (albums_create e user form w)) = 400)"
proof (intro conjI impI)
  assume run: "(step e u album metas)\<^sup>*\<^sup>* (startTasks fs, w) (ts, w')"
  from steps_consistent[OF run consistent_start[OF assms]]
  show "noDangling e w'" and "uploadFirst (log w')"
    by (simp_all add: consistent_def)
  assume "\<exists>k<length fs. storageFails e (filePathOf e album (fs ! k) k)"
  then obtain k where "k < length fs" and "storageFails e (filePathOf e album (fs ! k) k)"
    by blast
  with run show "respond album ts = (400, Error ''Failed to create album'')"
    by (rule failed_upload_answers_400)
next
  show "noDangling e (snd (albums_create e user form w))"
  proof (cases rule: albums_create_cases[of e user form w])
    case early
    with assms show ?thesis by simp
  next
    case (tasks u1 fd1 v album1 w1)
    from album_create_Inr[OF tasks(3)] assms have "noDangling e w1" "uploadFirst (log w1)"
      by (simp_all add: noDangling_iff)
    from steps_consistent[OF runAll_run consistent_start[OF this]] tasks(4)
    show ?thesis by (simp add: consistent_def)
  qed
next
  show "uploadFirst (log (snd (albums_create e user form w)))"
  proof (cases rule: albums_create_cases[of e user form w])
    case early
    with assms show ?thesis by simp
  next
    case (tasks u1 fd1 v album1 w1)
    from album_create_Inr[OF tasks(3)] assms have "noDangling e w1" "uploadFirst (log w1)"
      by (simp_all add: noDangling_iff)
    from steps_consistent[OF runAll_run consistent_start[OF this]] tasks(4)
    show ?thesis by (simp add: consistent_def)
  qed
next
  assume h: "user \<noteq> None \<and> form = Some fd
             \<and> (\<exists>k<length (imageFiles fd).
                   storageFails e (albumUuid e @ ''/'' @ imageUuid e k @ ''.''
                                     @ splitPop CHR ''.'' (fname (imageFiles fd ! k))))"
  show "fst (fst (albums_create e user form w)) = 400"
  proof (cases rule: albums_create_cases[of e user form w])
    case early
    with h show ?thesis by simp
  next
    case (tasks u1 fd1 v album1 w1)
    from h tasks(2) obtain k where k: "k < length (imageFiles fd1)"
      and f: "storageFails e (albumUuid e @ ''/'' @ imageUuid e k @ ''.''
                                @ splitPop CHR ''.'' (fname (imageFiles fd1 ! k)))"
      by auto
    from album_create_Inr[OF tasks(3)] have "aid album1 = albumUuid e" by simp
    with f have "storageFails e (filePathOf e album1 (imageFiles fd1 ! k) k)"
      by (simp add: filePathOf_aid)
    from failed_upload_answers_400[OF runAll_run k this] tasks(4)
    show ?thesis by simp
  qed
qed

theorem album_create_upload_first_witness:
  "noDangling env_down world0 \<and> uploadFirst (log world0)
   \<and> (step env_down ''alice'' album1 two_metas)\<^sup>*\<^sup>* (startTasks two_files, world0)
        (fst (runAll env_down ''alice'' album1 two_metas (startTasks two_files) world0),
         snd (runAll env_down ''alice'' album1 two_metas (startTasks two_files) world0))
   \<and> noDangling env_down
        (snd (runAll env_down ''alice'' album1 two_metas (startTasks two_files) world0))
   \<and> uploadFirst
        (log (snd (runAll env_down ''alice'' album1 two_metas (startTasks two_files) world0)))
   \<and> respond album1 (fst (runAll env_down ''alice'' album1 two_metas (startTasks two_files) world0))
       = (400, Error ''Failed to create album'')
   \<and> fst (fst (albums_create env_down (Some ''alice'') (Some form2) world0)) = 400
   \<and> noDangling env_down (snd (albums_create env_down (Some ''alice'') (Some form2) world0))
   \<and> uploadFirst (log (snd (albums_create env_down (Some ''alice'') (Some form2) world0)))"
proof -
  have h1: "noDangling env_down world0" and h2: "uploadFirst (log world0)"
    using world0_consistent by simp_all
  note run = runAll_run[of env_down "''alice''" album1 two_metas "startTasks two_files" world0]
  note T = album_create_upload_first[OF h1 h2,
      where u = "''alice''" and album = album1 and metas = two_metas and fs = two_files
        and ts = "fst (runAll env_down ''alice'' album1 two_metas (startTasks two_files) world0)"
        and w' = "snd (runAll env_down ''alice'' album1 two_metas (startTasks two_files) world0)"
        and user = "Some ''alice''" and form = "Some form2" and fd = form2]
  have k: "\<exists>k<length two_files. storageFails env_down (filePathOf env_down album1 (two_files ! k) k)"
    using second_upload_fails by blast
  have k2: "\<exists>k<length (imageFiles form2).
              storageFails env_down
                (albumUuid env_down @ ''/'' @ imageUuid env_down k @ ''.''
                   @ splitPop CHR ''.'' (fname (imageFiles form2 ! k)))"
    using second_upload_fails_form by blast
  have u: "Some ''alice'' \<noteq> None" by simp
  show ?thesis
    using T run k k2 h1 h2 u by blast
qed

end
